theory Spec2Isabelle
  imports Main "HOL-Library.Multiset"
begin

section \<open>Gas sponsorship quota ledger (supabase/migrations/003_gas_sponsorship.sql)\<close>

text \<open>
  The two PL/pgSQL functions \<^verbatim>\<open>check_user_gas_quota\<close> and \<^verbatim>\<open>record_gas_usage\<close> are
  embedded together with the five tables they read and write. Every nullable column is an
  \<open>option\<close> (\<open>None\<close> is SQL NULL), boolean expressions follow SQL's three-valued logic,
  BIGINT and INT arithmetic raises \<^verbatim>\<open>numeric_value_out_of_range\<close> instead of wrapping,
  and each statement of a function body is one step that takes the database and returns
  it. \<^verbatim>\<open>now()\<close> and \<^verbatim>\<open>CURRENT_DATE\<close> are read from a clock passed to the call.
  The arguments of both functions are taken to be non-NULL (the API route rejects a
  missing user address and passes a numeric estimate), except \<^verbatim>\<open>p_market_id\<close>, whose
  column is nullable. Integers are \<open>int\<close>; the ranges of BIGINT and INT are checked where
  the functions compute. The route handler that runs phase 1 of a sponsored trade, and the
  services it calls, are embedded after the stored functions, over a server that holds
  this database.
\<close>

subsection \<open>SQL values\<close>

datatype sql_error = NumericValueOutOfRange | UniqueViolation | ForeignKeyViolation

definition sql_not :: "bool option \<Rightarrow> bool option" where
  "sql_not b = map_option Not b"

fun sql_or :: "bool option \<Rightarrow> bool option \<Rightarrow> bool option" where
  "sql_or (Some True) b = Some True"
| "sql_or a (Some True) = Some True"
| "sql_or (Some False) (Some False) = Some False"
| "sql_or a b = None"

fun sql_gt :: "int option \<Rightarrow> int option \<Rightarrow> bool option" where
  "sql_gt (Some x) (Some y) = Some (y < x)"
| "sql_gt a b = None"

text \<open>\<^verbatim>\<open>IF c THEN\<close> runs its branch only when \<open>c\<close> is true; NULL counts as not true.\<close>

definition is_true :: "bool option \<Rightarrow> bool" where
  "is_true b = (b = Some True)"

fun coalesce :: "'a option list \<Rightarrow> 'a option" where
  "coalesce [] = None"
| "coalesce (Some v # vs) = Some v"
| "coalesce (None # vs) = coalesce vs"

definition in_bigint :: "int \<Rightarrow> bool" where
  "in_bigint x = (- (2 ^ 63) \<le> x \<and> x < 2 ^ 63)"

definition in_int4 :: "int \<Rightarrow> bool" where
  "in_int4 x = (- (2 ^ 31) \<le> x \<and> x < 2 ^ 31)"

definition bigint_out :: "int \<Rightarrow> sql_error + int option" where
  "bigint_out x = (if in_bigint x then Inr (Some x) else Inl NumericValueOutOfRange)"

fun bigint_add :: "int option \<Rightarrow> int option \<Rightarrow> sql_error + int option" where
  "bigint_add (Some x) (Some y) = bigint_out (x + y)"
| "bigint_add a b = Inr None"

fun bigint_sub :: "int option \<Rightarrow> int option \<Rightarrow> sql_error + int option" where
  "bigint_sub (Some x) (Some y) = bigint_out (x - y)"
| "bigint_sub a b = Inr None"

definition bigint_mul :: "int \<Rightarrow> int \<Rightarrow> sql_error + int" where
  "bigint_mul x y = (if in_bigint (x * y) then Inr (x * y) else Inl NumericValueOutOfRange)"

fun int4_add :: "int option \<Rightarrow> int \<Rightarrow> sql_error + int option" where
  "int4_add (Some x) y = (if in_int4 (x + y) then Inr (Some (x + y)) else Inl NumericValueOutOfRange)"
| "int4_add None y = Inr None"

subsection \<open>Tables\<close>

text \<open>
  A table with a primary key is a map from the key to the rest of the row; the other
  tables are lists of rows. Columns that neither function reads or writes (surrogate ids,
  free-text reasons, audit names, the fee payer and rate-limit settings of the
  configuration) are left out.
\<close>

record usage_row =
  market_id :: "string option"
  user_address :: string
  tx_hash :: string
  tx_version :: int
  gas_used :: int
  gas_unit_price :: int
  total_gas_fee :: int
  fee_payer_address :: string
  sponsored_at :: "int option"
  block_height :: "int option"

record quota_row =
  gas_used_today :: "int option"
  remaining_quota :: "int option"
  transactions_today :: "int option"
  daily_limit :: "int option"
  max_transactions_per_day :: "int option"
  first_transaction_at :: "int option"
  last_transaction_at :: "int option"
  updated_at :: "int option"

record config_row =
  default_daily_limit_per_user :: "int option"
  max_gas_per_transaction :: "int option"
  max_transactions_per_user_per_day :: "int option"
  whitelist_enabled :: "bool option"
  market_whitelist_enabled :: "bool option"
  enabled :: "bool option"
  emergency_stop :: "bool option"

record whitelist_row =
  custom_daily_limit :: "int option"
  is_active :: "bool option"
  expires_at :: "int option"

record blocked_row =
  blocked_until :: "int option"

record db =
  markets :: "string list"
  gas_sponsorship_usage :: "usage_row list"
  user_daily_quotas :: "string \<times> int \<rightharpoonup> quota_row"
  gas_station_config :: "config_row list"
  gas_station_whitelist :: "string \<rightharpoonup> whitelist_row"
  gas_station_blocked_users :: "string \<rightharpoonup> blocked_row"

record clock =
  now :: int
  current_date :: int

text \<open>The row type of \<^verbatim>\<open>RETURNS TABLE(has_quota, gas_used_today, remaining_quota, daily_limit, reason)\<close>.\<close>

record quota_result =
  has_quota :: bool
  out_gas_used_today :: "int option"
  out_remaining_quota :: "int option"
  out_daily_limit :: "int option"
  reason :: string

type_synonym 'a stmt = "db \<Rightarrow> 'a \<times> db"

subsection \<open>The queries of \<^verbatim>\<open>check_user_gas_quota\<close>\<close>

text \<open>
  \<^verbatim>\<open>SELECT ... INTO\<close> without \<^verbatim>\<open>STRICT\<close> assigns the first row of the result, or NULL
  to every target when the query returns no row.
\<close>

definition null_config :: config_row where
  "null_config = \<lparr>default_daily_limit_per_user = None, max_gas_per_transaction = None,
     max_transactions_per_user_per_day = None, whitelist_enabled = None,
     market_whitelist_enabled = None, enabled = None, emergency_stop = None\<rparr>"

definition null_quota :: quota_row where
  "null_quota = \<lparr>gas_used_today = None, remaining_quota = None, transactions_today = None,
     daily_limit = None, max_transactions_per_day = None, first_transaction_at = None,
     last_transaction_at = None, updated_at = None\<rparr>"

text \<open>\<^verbatim>\<open>SELECT * INTO v_config FROM gas_station_config LIMIT 1\<close>\<close>

definition select_config :: "config_row stmt" where
  "select_config d =
     ((case gas_station_config d of
         [] \<Rightarrow> null_config
       | c # cs \<Rightarrow> c), d)"

text \<open>
  \<^verbatim>\<open>SELECT EXISTS(SELECT 1 FROM gas_station_blocked_users WHERE user_address = p_user_address
  AND (blocked_until IS NULL OR blocked_until > now())) INTO v_is_blocked\<close>
\<close>

definition select_is_blocked :: "clock \<Rightarrow> string \<Rightarrow> bool stmt" where
  "select_is_blocked clk p_user_address d =
     ((case gas_station_blocked_users d p_user_address of
         None \<Rightarrow> False
       | Some b \<Rightarrow> (case blocked_until b of None \<Rightarrow> True | Some t \<Rightarrow> now clk < t)), d)"

text \<open>The rows of \<^verbatim>\<open>gas_station_whitelist WHERE user_address = p_user_address AND is_active = true\<close>.\<close>

definition active_whitelist_row :: "db \<Rightarrow> string \<Rightarrow> whitelist_row option" where
  "active_whitelist_row d p_user_address =
     (case gas_station_whitelist d p_user_address of
        None \<Rightarrow> None
      | Some w \<Rightarrow> if is_active w = Some True then Some w else None)"

text \<open>
  \<^verbatim>\<open>SELECT EXISTS(...active row...), custom_daily_limit INTO v_is_whitelisted, v_custom_limit
  FROM gas_station_whitelist WHERE user_address = p_user_address AND is_active = true\<close>:
  the outer query yields one row for each active row of the user, so with no such row
  both targets become NULL.
\<close>

definition select_whitelist :: "string \<Rightarrow> (bool option \<times> int option) stmt" where
  "select_whitelist p_user_address d =
     ((case active_whitelist_row d p_user_address of
         None \<Rightarrow> (None, None)
       | Some w \<Rightarrow>
           (Some (active_whitelist_row d p_user_address \<noteq> None), custom_daily_limit w)), d)"

text \<open>
  \<^verbatim>\<open>SELECT * INTO v_quota FROM user_daily_quotas WHERE user_address = p_user_address
  AND date = CURRENT_DATE\<close>, with the value of \<^verbatim>\<open>FOUND\<close> afterwards.
\<close>

definition select_quota :: "clock \<Rightarrow> string \<Rightarrow> (bool \<times> quota_row) stmt" where
  "select_quota clk p_user_address d =
     ((case user_daily_quotas d (p_user_address, current_date clk) of
         None \<Rightarrow> (False, null_quota)
       | Some q \<Rightarrow> (True, q)), d)"

subsection \<open>\<^verbatim>\<open>check_user_gas_quota\<close>\<close>

text \<open>\<^verbatim>\<open>RETURN QUERY SELECT false, 0::BIGINT, 0::BIGINT, 0::BIGINT, '...'::TEXT; RETURN;\<close>\<close>

definition return_denied :: "string \<Rightarrow> db \<Rightarrow> (sql_error + quota_result) \<times> db" where
  "return_denied r d =
     (Inr \<lparr>has_quota = False, out_gas_used_today = Some 0, out_remaining_quota = Some 0,
           out_daily_limit = Some 0, reason = r\<rparr>, d)"

text \<open>
  \<^verbatim>\<open>RETURN QUERY SELECT b, v_quota.gas_used_today, v_quota.daily_limit - v_quota.gas_used_today,
  v_quota.daily_limit, '...'::TEXT\<close>
\<close>

definition return_quota ::
  "bool \<Rightarrow> int option \<Rightarrow> int option \<Rightarrow> string \<Rightarrow> db \<Rightarrow> (sql_error + quota_result) \<times> db" where
  "return_quota b v_gas_used_today v_daily_limit r d =
     (case bigint_sub v_daily_limit v_gas_used_today of
        Inl e \<Rightarrow> (Inl e, d)
      | Inr v_remaining \<Rightarrow>
          (Inr \<lparr>has_quota = b, out_gas_used_today = v_gas_used_today, out_remaining_quota = v_remaining,
                out_daily_limit = v_daily_limit, reason = r\<rparr>, d))"

text \<open>The block \<^verbatim>\<open>IF NOT FOUND THEN ... ELSE ... END IF\<close> that fills \<^verbatim>\<open>v_quota.daily_limit\<close>.\<close>

definition effective_daily_limit ::
  "config_row \<Rightarrow> int option \<Rightarrow> bool \<Rightarrow> quota_row \<Rightarrow> int option" where
  "effective_daily_limit v_config v_custom_limit found v_quota =
     (if \<not> found then coalesce [v_custom_limit, default_daily_limit_per_user v_config]
      else coalesce [daily_limit v_quota, v_custom_limit, default_daily_limit_per_user v_config])"

text \<open>
  The two limit checks and the three \<^verbatim>\<open>RETURN QUERY\<close> statements that follow them
  (\<^verbatim>\<open>-- Check quota\<close>, \<^verbatim>\<open>-- Check per-tx limit\<close>, \<^verbatim>\<open>-- All checks passed\<close>).
\<close>

definition check_limits ::
  "config_row \<Rightarrow> int option \<Rightarrow> int option \<Rightarrow> int \<Rightarrow> db \<Rightarrow> (sql_error + quota_result) \<times> db" where
  "check_limits v_config v_gas_used_today v_daily_limit p_estimated_gas d =
     (case bigint_add v_gas_used_today (Some p_estimated_gas) of
        Inl e \<Rightarrow> (Inl e, d)
      | Inr v_total \<Rightarrow>
          if is_true (sql_gt v_total v_daily_limit)
          then return_quota False v_gas_used_today v_daily_limit ''Daily quota exceeded'' d
          else if is_true (sql_gt (Some p_estimated_gas) (max_gas_per_transaction v_config))
          then return_quota False v_gas_used_today v_daily_limit
                 ''Gas per transaction limit exceeded'' d
          else return_quota True v_gas_used_today v_daily_limit ''OK'' d)"

definition check_user_gas_quota ::
  "clock \<Rightarrow> string \<Rightarrow> int \<Rightarrow> db \<Rightarrow> (sql_error + quota_result) \<times> db" where
  "check_user_gas_quota clk p_user_address p_estimated_gas d0 =
     (let (v_config, d1) = select_config d0 in
      if is_true (sql_or (sql_not (enabled v_config)) (emergency_stop v_config))
      then return_denied ''Gas station disabled'' d1
      else
        let (v_is_blocked, d2) = select_is_blocked clk p_user_address d1 in
        if v_is_blocked then return_denied ''User blocked'' d2
        else
          let ((v_is_whitelisted, v_custom_limit), d3) =
                (if is_true (whitelist_enabled v_config)
                 then select_whitelist p_user_address d2
                 else ((None, None), d2)) in
          if is_true (whitelist_enabled v_config) \<and> is_true (sql_not v_is_whitelisted)
          then return_denied ''User not whitelisted'' d3
          else
            let ((found, v_quota), d4) = select_quota clk p_user_address d3;
                v_gas_used_today = (if \<not> found then Some 0 else gas_used_today v_quota);
                v_daily_limit = effective_daily_limit v_config v_custom_limit found v_quota
            in check_limits v_config v_gas_used_today v_daily_limit p_estimated_gas d4)"

subsection \<open>\<^verbatim>\<open>record_gas_usage\<close>\<close>

text \<open>
  \<^verbatim>\<open>INSERT INTO gas_sponsorship_usage\<close>: the unique index on \<^verbatim>\<open>tx_hash\<close> is checked as the
  row is inserted, the foreign key \<^verbatim>\<open>market_id REFERENCES markets(id)\<close> at the end of
  the statement (a NULL \<^verbatim>\<open>market_id\<close> references nothing).
\<close>

definition insert_usage :: "usage_row \<Rightarrow> db \<Rightarrow> (sql_error + unit) \<times> db" where
  "insert_usage r d =
     (if tx_hash r \<in> set (map tx_hash (gas_sponsorship_usage d)) then (Inl UniqueViolation, d)
      else if (case market_id r of None \<Rightarrow> False | Some m \<Rightarrow> m \<notin> set (markets d))
      then (Inl ForeignKeyViolation, d)
      else (Inr (), d\<lparr>gas_sponsorship_usage := gas_sponsorship_usage d @ [r]\<rparr>))"

text \<open>
  \<^verbatim>\<open>INSERT INTO user_daily_quotas ... ON CONFLICT (user_address, date) DO UPDATE SET
  gas_used_today = user_daily_quotas.gas_used_today + v_total_gas_fee,
  transactions_today = user_daily_quotas.transactions_today + 1, last_transaction_at = now(),
  updated_at = now()\<close>. A fresh row takes the column defaults: \<^verbatim>\<open>updated_at\<close> is
  \<^verbatim>\<open>now()\<close>, the other columns not listed are NULL.
\<close>

definition upsert_quota :: "clock \<Rightarrow> string \<Rightarrow> int \<Rightarrow> db \<Rightarrow> (sql_error + unit) \<times> db" where
  "upsert_quota clk p_user_address v_total_gas_fee d =
     (let k = (p_user_address, current_date clk) in
      case user_daily_quotas d k of
        None \<Rightarrow>
          (Inr (), d\<lparr>user_daily_quotas := (user_daily_quotas d)(k \<mapsto>
             \<lparr>gas_used_today = Some v_total_gas_fee, remaining_quota = None,
              transactions_today = Some 1, daily_limit = None, max_transactions_per_day = None,
              first_transaction_at = Some (now clk), last_transaction_at = Some (now clk),
              updated_at = Some (now clk)\<rparr>)\<rparr>)
      | Some q \<Rightarrow>
          (case bigint_add (gas_used_today q) (Some v_total_gas_fee) of
             Inl e \<Rightarrow> (Inl e, d)
           | Inr g \<Rightarrow>
               (case int4_add (transactions_today q) 1 of
                  Inl e \<Rightarrow> (Inl e, d)
                | Inr n \<Rightarrow>
                    (Inr (), d\<lparr>user_daily_quotas := (user_daily_quotas d)(k \<mapsto>
                       q\<lparr>gas_used_today := g, transactions_today := n,
                         last_transaction_at := Some (now clk),
                         updated_at := Some (now clk)\<rparr>)\<rparr>))))"

text \<open>
  An error raised by a statement leaves the function at once and undoes what the function
  had written: the database of a failed call is the one it started from.
\<close>

definition record_gas_usage ::
  "clock \<Rightarrow> string \<Rightarrow> string option \<Rightarrow> string \<Rightarrow> int \<Rightarrow> int \<Rightarrow> int \<Rightarrow> string \<Rightarrow> db
     \<Rightarrow> (sql_error + unit) \<times> db" where
  "record_gas_usage clk p_user_address p_market_id p_tx_hash p_tx_version p_gas_used
       p_gas_unit_price p_fee_payer_address d0 =
     (case bigint_mul p_gas_used p_gas_unit_price of
        Inl e \<Rightarrow> (Inl e, d0)
      | Inr v_total_gas_fee \<Rightarrow>
          (case insert_usage
                  \<lparr>market_id = p_market_id, user_address = p_user_address, tx_hash = p_tx_hash,
                   tx_version = p_tx_version, gas_used = p_gas_used,
                   gas_unit_price = p_gas_unit_price, total_gas_fee = v_total_gas_fee,
                   fee_payer_address = p_fee_payer_address, sponsored_at = Some (now clk),
                   block_height = None\<rparr> d0 of
             (Inl e, d1) \<Rightarrow> (Inl e, d0)
           | (Inr u, d1) \<Rightarrow>
               (case upsert_quota clk p_user_address v_total_gas_fee d1 of
                  (Inl e, d2) \<Rightarrow> (Inl e, d0)
                | (Inr u', d2) \<Rightarrow> (Inr (), d2))))"

text \<open>A sequence of calls of \<^verbatim>\<open>record_gas_usage\<close>, each with its own clock and arguments.\<close>

record usage_call =
  call_clock :: clock
  call_user :: string
  call_market :: "string option"
  call_tx_hash :: string
  call_tx_version :: int
  call_gas_used :: int
  call_gas_unit_price :: int
  call_fee_payer :: string

definition record_call :: "usage_call \<Rightarrow> db \<Rightarrow> (sql_error + unit) \<times> db" where
  "record_call c d =
     record_gas_usage (call_clock c) (call_user c) (call_market c) (call_tx_hash c)
       (call_tx_version c) (call_gas_used c) (call_gas_unit_price c) (call_fee_payer c) d"

fun record_all :: "usage_call list \<Rightarrow> db \<Rightarrow> (sql_error + unit) \<times> db" where
  "record_all [] d = (Inr (), d)"
| "record_all (c # cs) d =
     (case record_call c d of
        (Inl e, d') \<Rightarrow> (Inl e, d')
      | (Inr u, d') \<Rightarrow> record_all cs d')"

definition call_fee :: "usage_call \<Rightarrow> int" where
  "call_fee c = call_gas_used c * call_gas_unit_price c"

subsection \<open>The database after the migration\<close>

text \<open>
  \<^verbatim>\<open>INSERT INTO gas_station_config (fee_payer_address, default_daily_limit_per_user,
  max_gas_per_transaction, enabled) VALUES (..., 5000000000, 100000000, true)\<close>; the other
  columns take their defaults. All other tables are empty.
\<close>

definition default_config :: config_row where
  "default_config = \<lparr>default_daily_limit_per_user = Some 5000000000,
     max_gas_per_transaction = Some 100000000, max_transactions_per_user_per_day = Some 50,
     whitelist_enabled = Some False, market_whitelist_enabled = Some True,
     enabled = Some True, emergency_stop = Some False\<rparr>"

definition initial_db :: db where
  "initial_db = \<lparr>markets = [], gas_sponsorship_usage = [], user_daily_quotas = Map.empty,
     gas_station_config = [default_config], gas_station_whitelist = Map.empty,
     gas_station_blocked_users = Map.empty\<rparr>"

subsection \<open>The gas sponsor service and the sponsorship route\<close>

text \<open>
  Phase 1 of a sponsored trade is the route handler \<^verbatim>\<open>POST\<close> (\<^verbatim>\<open>/api/sponsor/bet\<close>) with
  the functions it calls: \<^verbatim>\<open>checkUserGasQuota\<close> and \<^verbatim>\<open>buildSponsoredTransaction\<close> of the
  gas sponsor service and \<^verbatim>\<open>getMarketFunctionPath\<close> of the contract version service. They
  run on a server that holds the database and the module-level variables of the two
  services. What the handler cannot decide itself is read from an environment: the
  process variables, the clocks, whether a request to the database gets an answer, and the
  chain client (\<^verbatim>\<open>aptos.transaction.build.simple\<close>, \<^verbatim>\<open>aptos.transaction.signAsFeePayer\<close>, the
  parsing of the private key), whose calls either return a value or throw.
\<close>

text \<open>The columns of \<^verbatim>\<open>markets\<close> and \<^verbatim>\<open>blockchain_contracts\<close> that phase 1 reads.\<close>

record market_row =
  market_object_address :: "string option"
  market_system :: "string option"
  contract_module_name :: "string option"
  status :: "string option"
  is_gas_sponsored :: "bool option"

record contract_row =
  version :: string
  contract_type :: string
  module_names :: "string list"
  account_address :: string
  network :: string
  is_latest :: "bool option"
  deployment_status :: "string option"

text \<open>
  The rows of \<^verbatim>\<open>markets\<close> are the ids listed in the database together with their other
  columns; \<^verbatim>\<open>contractCache\<close> is a JavaScript \<^verbatim>\<open>Map\<close>, kept in insertion order.
\<close>

record server =
  store :: db
  market_columns :: "string \<Rightarrow> market_row"
  blockchain_contracts :: "contract_row list"
  contractCache :: "(string \<times> contract_row) list"
  cacheTimestamp :: int
  feePayerAccount :: "string option"

text \<open>A JSON number is an integer or it is not; \<^verbatim>\<open>BigInt\<close> accepts only the former.\<close>

datatype js_number = Whole int | Fraction

datatype fn_arg = ArgAddress "string option" | ArgNumber js_number | ArgBigInt int

record environment =
  db_clock :: clock
  date_now :: int
  NEXT_PUBLIC_APTOS_NETWORK :: "string option"
  GAS_SPONSOR_PRIVATE_KEY :: "string option"
  NEXT_PUBLIC_GAS_SPONSOR_ADDRESS :: "string option"
  markets_answer :: bool
  rpc_answer :: bool
  contracts_answer :: bool
  key_well_formed :: "string \<Rightarrow> bool"
  build_simple :: "string \<Rightarrow> string \<Rightarrow> fn_arg list \<Rightarrow> string option"
  sign_as_fee_payer :: "string \<Rightarrow> string \<Rightarrow> string option"

datatype js_error = Error string

datatype json = JBool bool | JNum js_number | JStr string | JObj "(string \<times> json) list"

text \<open>A response of the handler: the HTTP status and the fields of the JSON body.\<close>

record response =
  http_status :: nat
  json_body :: "(string \<times> json) list"

subsubsection \<open>The gas sponsor service\<close>

text \<open>
  \<^verbatim>\<open>supabase.rpc('check_user_gas_quota', args)\<close>. The REST layer of the database finds the
  function by its name and the names of the arguments passed: every name must be a
  parameter of the function and \<^verbatim>\<open>p_user_address\<close>, which has no default, must be
  passed; \<^verbatim>\<open>p_estimated_gas\<close> defaults to 100000000. A call that does not resolve, that
  gets no answer, or whose function raises, comes back as an error; otherwise the data is
  the array of the rows returned.
\<close>

datatype rpc_value = RText string | RNumber int

datatype rpc_error = NoAnswer | FunctionNotFound | InvalidArgument | Raised sql_error

definition run_check_user_gas_quota ::
  "clock \<Rightarrow> string \<Rightarrow> int \<Rightarrow> db \<Rightarrow> (rpc_error + quota_result list) \<times> db" where
  "run_check_user_gas_quota clk u g d =
     (if in_bigint g
      then (case check_user_gas_quota clk u g d of
              (Inl e, d1) \<Rightarrow> (Inl (Raised e), d1)
            | (Inr r, d1) \<Rightarrow> (Inr [r], d1))
      else (Inl InvalidArgument, d))"

definition supabase_rpc_check_user_gas_quota ::
  "environment \<Rightarrow> (string \<times> rpc_value) list \<Rightarrow> db \<Rightarrow> (rpc_error + quota_result list) \<times> db" where
  "supabase_rpc_check_user_gas_quota env args d =
     (if rpc_answer env
      then if list_all (\<lambda>n. n \<in> {''p_user_address'', ''p_estimated_gas''}) (map fst args)
        then (case (map_of args ''p_user_address'', map_of args ''p_estimated_gas'') of
                (Some (RText u), None) \<Rightarrow> run_check_user_gas_quota (db_clock env) u 100000000 d
              | (Some (RText u), Some (RNumber g)) \<Rightarrow> run_check_user_gas_quota (db_clock env) u g d
              | (Some (RText u), Some (RText t)) \<Rightarrow> (Inl InvalidArgument, d)
              | (Some (RNumber n), g) \<Rightarrow> (Inl InvalidArgument, d)
              | (None, g) \<Rightarrow> (Inl FunctionNotFound, d))
        else (Inl FunctionNotFound, d)
      else (Inl NoAnswer, d))"

text \<open>
  The value of \<^verbatim>\<open>data?.name\<close> when \<^verbatim>\<open>data\<close> is the array of returned rows: an array has a
  \<^verbatim>\<open>length\<close> and no property called \<^verbatim>\<open>allowed\<close>, \<^verbatim>\<open>remaining\<close> or \<^verbatim>\<open>message\<close>.
\<close>

definition array_property :: "'a list \<Rightarrow> string \<Rightarrow> json option" where
  "array_property rows name =
     (if name = ''length'' then Some (JNum (Whole (int (length rows)))) else None)"

record quota_check =
  allowed :: json
  remaining :: json
  message :: "json option"

text \<open>
  \<^verbatim>\<open>checkUserGasQuota(userAddress, requiredGas)\<close>: the rpc is made with the argument names
  \<^verbatim>\<open>p_user_address\<close> and \<^verbatim>\<open>p_required_amount\<close>; \<^verbatim>\<open>x ?? y\<close> is \<open>y\<close> when \<open>x\<close> is undefined.
\<close>

definition checkUserGasQuota ::
  "environment \<Rightarrow> string \<Rightarrow> int \<Rightarrow> db \<Rightarrow> quota_check \<times> db" where
  "checkUserGasQuota env userAddress requiredGas d =
     (case supabase_rpc_check_user_gas_quota env
             [(''p_user_address'', RText userAddress), (''p_required_amount'', RNumber requiredGas)] d of
        (Inl error, d1) \<Rightarrow>
          (\<lparr>allowed = JBool False, remaining = JNum (Whole 0),
            message = Some (JStr ''Failed to check quota'')\<rparr>, d1)
      | (Inr data, d1) \<Rightarrow>
          (\<lparr>allowed = (case array_property data ''allowed'' of None \<Rightarrow> JBool False | Some v \<Rightarrow> v),
            remaining = (case array_property data ''remaining'' of None \<Rightarrow> JNum (Whole 0) | Some v \<Rightarrow> v),
            message = array_property data ''message''\<rparr>, d1))"

text \<open>
  \<^verbatim>\<open>getFeePayerAccount()\<close>: the account is built from \<^verbatim>\<open>GAS_SPONSOR_PRIVATE_KEY\<close> once and kept
  in the module variable \<^verbatim>\<open>feePayerAccount\<close>; it is represented by its key.
\<close>

definition getFeePayerAccount :: "environment \<Rightarrow> server \<Rightarrow> (js_error + string) \<times> server" where
  "getFeePayerAccount env s =
     (case feePayerAccount s of
        Some account \<Rightarrow> (Inr account, s)
      | None \<Rightarrow>
          (case GAS_SPONSOR_PRIVATE_KEY env of
             None \<Rightarrow> (Inl (Error ''GAS_SPONSOR_PRIVATE_KEY not configured''), s)
           | Some privateKeyHex \<Rightarrow>
               if privateKeyHex = [] then (Inl (Error ''GAS_SPONSOR_PRIVATE_KEY not configured''), s)
               else if key_well_formed env privateKeyHex
               then (Inr privateKeyHex, s\<lparr>feePayerAccount := Some privateKeyHex\<rparr>)
               else (Inl (Error ''invalid private key''), s)))"

text \<open>
  \<^verbatim>\<open>buildSponsoredTransaction\<close>: build the transaction with a fee payer, then sign it as fee
  payer. The result is the transaction and the fee payer's authenticator.
\<close>

definition buildSponsoredTransaction ::
  "environment \<Rightarrow> string \<Rightarrow> string \<Rightarrow> fn_arg list \<Rightarrow> server
     \<Rightarrow> (js_error + string \<times> string) \<times> server" where
  "buildSponsoredTransaction env senderAddress functionPath functionArguments s =
     (case build_simple env senderAddress functionPath functionArguments of
        None \<Rightarrow> (Inl (Error ''transaction build failed''), s)
      | Some transaction \<Rightarrow>
          (case getFeePayerAccount env s of
             (Inl e, s1) \<Rightarrow> (Inl e, s1)
           | (Inr feePayer, s1) \<Rightarrow>
               (case sign_as_fee_payer env feePayer transaction of
                  None \<Rightarrow> (Inl (Error ''fee payer signature failed''), s1)
                | Some feePayerAuthenticator \<Rightarrow>
                    (Inr (transaction, feePayerAuthenticator), s1))))"

subsubsection \<open>The contract version service\<close>

definition CACHE_TTL :: int where
  "CACHE_TTL = 60 * 1000"

text \<open>\<^verbatim>\<open>process.env.NEXT_PUBLIC_APTOS_NETWORK || 'testnet'\<close>\<close>

definition service_network :: "environment \<Rightarrow> string" where
  "service_network env =
     (case NEXT_PUBLIC_APTOS_NETWORK env of
        None \<Rightarrow> ''testnet''
      | Some n \<Rightarrow> if n = [] then ''testnet'' else n)"

text \<open>\<^verbatim>\<open>Map.prototype.set\<close>: a key already present keeps its place.\<close>

fun map_set :: "'k \<Rightarrow> 'v \<Rightarrow> ('k \<times> 'v) list \<Rightarrow> ('k \<times> 'v) list" where
  "map_set k v [] = [(k, v)]"
| "map_set k v ((k', v') # kvs) =
     (if k' = k then (k, v) # kvs else (k', v') # map_set k v kvs)"

text \<open>\<^verbatim>\<open>String.prototype.includes\<close>\<close>

fun js_includes :: "string \<Rightarrow> string \<Rightarrow> bool" where
  "js_includes [] p = (p = [])"
| "js_includes (x # xs) p = (take (length p) (x # xs) = p \<or> js_includes xs p)"

definition cache_contract ::
  "(string \<times> contract_row) list \<Rightarrow> contract_row \<Rightarrow> (string \<times> contract_row) list" where
  "cache_contract cache contract =
     map_set (''type:'' @ contract_type contract) contract
       (map_set (version contract) contract cache)"

text \<open>
  \<^verbatim>\<open>loadContractVersions()\<close>: within the time to live the cache is kept; otherwise the latest
  active contracts of the network are read from \<^verbatim>\<open>blockchain_contracts\<close> and cached under
  their version and under their type. A failed read throws before the cache is cleared.
\<close>

definition loadContractVersions :: "environment \<Rightarrow> server \<Rightarrow> (js_error + unit) \<times> server" where
  "loadContractVersions env s =
     (if 0 < cacheTimestamp s \<and> date_now env - cacheTimestamp s < CACHE_TTL then (Inr (), s)
      else if contracts_answer env
      then (Inr (),
            s\<lparr>contractCache :=
                 foldl cache_contract []
                   (filter (\<lambda>c. is_latest c = Some True \<and> network c = service_network env \<and>
                                 deployment_status c = Some ''active'')
                      (blockchain_contracts s)),
               cacheTimestamp := date_now env\<rparr>)
      else (Inl (Error ''Failed to load contract versions''), s))"

text \<open>
  \<^verbatim>\<open>getV3BinaryContract\<close>, \<^verbatim>\<open>getV3MultiContract\<close>, \<^verbatim>\<open>getV4BinaryContract\<close> and
  \<^verbatim>\<open>getV4MultiContract\<close> differ in the keys they try and in the text they search for: the
  first cached contract under one of the keys, else the first cached contract whose version
  includes the text and that is the latest, else an exception (whose message, naming the
  contract, is not kept: the handler answers every exception alike).
\<close>

fun first_cached :: "(string \<times> contract_row) list \<Rightarrow> string list \<Rightarrow> contract_row option" where
  "first_cached cache [] = None"
| "first_cached cache (k # ks) =
     (case map_of cache k of Some c \<Rightarrow> Some c | None \<Rightarrow> first_cached cache ks)"

definition getContract ::
  "string list \<Rightarrow> string \<Rightarrow> environment \<Rightarrow> server \<Rightarrow> (js_error + contract_row) \<times> server" where
  "getContract keys needle env s =
     (case loadContractVersions env s of
        (Inl e, s1) \<Rightarrow> (Inl e, s1)
      | (Inr u, s1) \<Rightarrow>
          (case first_cached (contractCache s1) keys of
             Some contract \<Rightarrow> (Inr contract, s1)
           | None \<Rightarrow>
               (case find (\<lambda>c. js_includes (version c) needle \<and> is_latest c = Some True)
                       (map snd (contractCache s1)) of
                  Some contract \<Rightarrow> (Inr contract, s1)
                | None \<Rightarrow> (Inl (Error ''contract not found in database''), s1))))"

text \<open>
  The function path \<^verbatim>\<open>`${contract.account_address}::${moduleName}::${functionName}`\<close> with
  \<^verbatim>\<open>moduleName = overrideModuleName || contract.module_names[0]\<close>.
\<close>

definition function_path :: "contract_row \<Rightarrow> string \<Rightarrow> string option \<Rightarrow> string" where
  "function_path contract functionName overrideModuleName =
     (let first_module = (case module_names contract of [] \<Rightarrow> ''undefined'' | m # ms \<Rightarrow> m);
          moduleName = (case overrideModuleName of
                          None \<Rightarrow> first_module
                        | Some n \<Rightarrow> if n = [] then first_module else n)
      in account_address contract @ ''::'' @ moduleName @ ''::'' @ functionName)"

definition getFunctionPath ::
  "string list \<Rightarrow> string \<Rightarrow> string \<Rightarrow> string option \<Rightarrow> environment \<Rightarrow> server
     \<Rightarrow> (js_error + string) \<times> server" where
  "getFunctionPath keys needle functionName overrideModuleName env s =
     (case getContract keys needle env s of
        (Inl e, s1) \<Rightarrow> (Inl e, s1)
      | (Inr contract, s1) \<Rightarrow> (Inr (function_path contract functionName overrideModuleName), s1))"

definition getMarketFunctionPath ::
  "string option \<Rightarrow> string \<Rightarrow> string option \<Rightarrow> environment \<Rightarrow> server
     \<Rightarrow> (js_error + string) \<times> server" where
  "getMarketFunctionPath marketSystem functionName overrideModuleName env s =
     (if marketSystem = Some ''v3-binary''
      then getFunctionPath [''v3-binary-safe'', ''v3-binary''] ''v3-binary''
             functionName overrideModuleName env s
      else if marketSystem = Some ''v3-multi''
      then getFunctionPath [''v3-multi-safe'', ''v3-multi''] ''v3-multi''
             functionName overrideModuleName env s
      else if marketSystem = Some ''v4-binary''
      then getFunctionPath [''v4-binary''] ''v4-binary'' functionName overrideModuleName env s
      else if marketSystem = Some ''v4-multi''
      then getFunctionPath [''v4-multi''] ''v4-multi'' functionName overrideModuleName env s
      else (Inl (Error ''Unknown market system''), s))"

subsubsection \<open>The route handler\<close>

text \<open>
  The body of the request as the trading panel sends it, where any field may be missing. A
  request whose body is not JSON at all is \<open>None\<close>.
\<close>

record bet_request =
  userAddress :: "string option"
  marketId :: "string option"
  marketAddress :: "string option"
  optionIndex :: "js_number option"
  amount :: "js_number option"

text \<open>
  \<^verbatim>\<open>supabase.from('markets').select('*').eq('id', marketId).single()\<close>: the row, or nothing
  when the read fails or finds no row.
\<close>

definition select_market :: "environment \<Rightarrow> string \<Rightarrow> server \<Rightarrow> market_row option \<times> server" where
  "select_market env market_key s =
     (if markets_answer env \<and> market_key \<in> set (markets (store s))
      then Some (market_columns s market_key) else None, s)"

text \<open>\<^verbatim>\<open>checkUserGasQuota\<close> as the handler calls it, on the server's database.\<close>

definition check_quota_on_server ::
  "environment \<Rightarrow> string \<Rightarrow> int \<Rightarrow> server \<Rightarrow> quota_check \<times> server" where
  "check_quota_on_server env user estimatedGas s =
     (case checkUserGasQuota env user estimatedGas (store s) of
        (quotaCheck, d1) \<Rightarrow> (quotaCheck, s\<lparr>store := d1\<rparr>))"

text \<open>The values that \<^verbatim>\<open>!x\<close> and \<^verbatim>\<open>x || y\<close> treat as false.\<close>

fun falsy :: "json \<Rightarrow> bool" where
  "falsy (JBool b) = (\<not> b)"
| "falsy (JNum n) = (n = Whole 0)"
| "falsy (JStr t) = (t = [])"
| "falsy (JObj kvs) = False"

definition server_error :: response where
  "server_error =
     \<lparr>http_status = 500,
      json_body = [(''error'', JStr ''Failed to create sponsored transaction'')]\<rparr>"

definition optional_field :: "string \<Rightarrow> string option \<Rightarrow> (string \<times> json) list" where
  "optional_field name v = (case v of None \<Rightarrow> [] | Some t \<Rightarrow> [(name, JStr t)])"

text \<open>
  The handler after the quota check has let the request through: resolve the function
  path, convert the amount with \<^verbatim>\<open>BigInt\<close>, build the sponsored transaction and answer with
  status 200. Whatever is thrown is caught by the handler and answered with status 500; the
  server keeps the state it had when the exception was thrown.
\<close>

definition assemble_sponsored_bet ::
  "environment \<Rightarrow> bet_request \<Rightarrow> market_row \<Rightarrow> string \<Rightarrow> js_number \<Rightarrow> js_number \<Rightarrow> server
     \<Rightarrow> response \<times> server" where
  "assemble_sponsored_bet env body market user option_index amount_sent s2 =
     (case getMarketFunctionPath (market_system market) ''buy_with_apt''
             (contract_module_name market) env s2 of
        (Inl e, s3) \<Rightarrow> (server_error, s3)
      | (Inr functionPath, s3) \<Rightarrow>
          (case amount_sent of
             Fraction \<Rightarrow> (server_error, s3)
           | Whole a \<Rightarrow>
               (case buildSponsoredTransaction env user functionPath
                       [ArgAddress
                          (case marketAddress body of
                             None \<Rightarrow> market_object_address market
                           | Some addr \<Rightarrow>
                               if addr = [] then market_object_address market else Some addr),
                        ArgNumber option_index, ArgBigInt a] s3 of
                  (Inl e, s4) \<Rightarrow> (server_error, s4)
                | (Inr built, s4) \<Rightarrow>
                    (\<lparr>http_status = 200,
                      json_body =
                        [(''success'', JBool True),
                         (''transaction'',
                            JObj [(''sender'', JStr user),
                                  (''functionPath'', JStr functionPath),
                                  (''optionIndex'', JNum option_index),
                                  (''amount'', JNum amount_sent)])] @
                        optional_field ''feePayerAddress'' (NEXT_PUBLIC_GAS_SPONSOR_ADDRESS env) @
                        [(''estimatedGas'', JNum (Whole 100000)),
                         (''message'', JStr ''Transaction ready for user signature'')]\<rparr>,
                     s4))))"

text \<open>
  \<^verbatim>\<open>POST(request)\<close>: validate the body, read the market, check that it is gas sponsored
  and active, check the user's quota with an estimate of 100000, and assemble the
  transaction. A body that cannot be parsed throws and is answered with status 500.
\<close>

definition POST :: "environment \<Rightarrow> bet_request option \<Rightarrow> server \<Rightarrow> response \<times> server" where
  "POST env request s0 =
     (case request of
        None \<Rightarrow> (server_error, s0)
      | Some body \<Rightarrow>
          (case (userAddress body, marketId body, optionIndex body, amount body) of
             (Some user, Some market_key, Some option_index, Some amount_sent) \<Rightarrow>
               if user = [] \<or> market_key = [] \<or> amount_sent = Whole 0
               then (\<lparr>http_status = 400,
                       json_body = [(''error'', JStr ''Missing required fields'')]\<rparr>, s0)
               else
                 (case select_market env market_key s0 of
                    (None, s1) \<Rightarrow>
                      (\<lparr>http_status = 404,
                        json_body = [(''error'', JStr ''Market not found'')]\<rparr>, s1)
                  | (Some market, s1) \<Rightarrow>
                      if is_gas_sponsored market \<noteq> Some True
                      then (\<lparr>http_status = 400,
                              json_body = [(''error'',
                                JStr ''This market does not support gas sponsorship'')]\<rparr>, s1)
                      else if status market \<noteq> Some ''active''
                      then (\<lparr>http_status = 400,
                              json_body = [(''error'', JStr ''Market is not active'')]\<rparr>, s1)
                      else
                        (case check_quota_on_server env user 100000 s1 of
                           (quotaCheck, s2) \<Rightarrow>
                             if falsy (allowed quotaCheck)
                             then (\<lparr>http_status = 429,
                                     json_body =
                                       [(''error'', JStr ''Gas quota exceeded'')] @
                                       (case message quotaCheck of
                                          None \<Rightarrow> []
                                        | Some m \<Rightarrow> [(''message'', m)]) @
                                       [(''remaining'', remaining quotaCheck)]\<rparr>, s2)
                             else assemble_sponsored_bet env body market user option_index
                                    amount_sent s2))
           | _ \<Rightarrow>
               (\<lparr>http_status = 400,
                 json_body = [(''error'', JStr ''Missing required fields'')]\<rparr>, s0)))"

subsection \<open>What the ledger says about a user\<close>

text \<open>
  Today's consumption of a user: the \<^verbatim>\<open>gas_used_today\<close> of today's row, and 0 while
  the user has no row for today.
\<close>

definition gas_used_so_far :: "clock \<Rightarrow> string \<Rightarrow> db \<Rightarrow> int option" where
  "gas_used_so_far clk u d =
     (case user_daily_quotas d (u, current_date clk) of
        None \<Rightarrow> Some 0
      | Some q \<Rightarrow> gas_used_today q)"

text \<open>The per-user override: the \<^verbatim>\<open>daily_limit\<close> of today's row, if there is a row.\<close>

definition quota_row_override :: "clock \<Rightarrow> string \<Rightarrow> db \<Rightarrow> int option" where
  "quota_row_override clk u d =
     (case user_daily_quotas d (u, current_date clk) of
        None \<Rightarrow> None
      | Some q \<Rightarrow> daily_limit q)"

text \<open>The custom limit of the user's active whitelist entry, if there is one.\<close>

definition whitelist_custom_limit :: "db \<Rightarrow> string \<Rightarrow> int option" where
  "whitelist_custom_limit d u =
     (case active_whitelist_row d u of
        None \<Rightarrow> None
      | Some w \<Rightarrow> custom_daily_limit w)"

text \<open>
  The limit the function works with once the gates are passed: the override of today's row,
  else the whitelist's custom limit (read only in whitelist mode), else the global default.
\<close>

definition resolved_daily_limit :: "clock \<Rightarrow> string \<Rightarrow> db \<Rightarrow> int option" where
  "resolved_daily_limit clk u d =
     coalesce [quota_row_override clk u d,
               if is_true (whitelist_enabled (fst (select_config d)))
               then whitelist_custom_limit d u else None,
               default_daily_limit_per_user (fst (select_config d))]"

subsection \<open>The specification's formulas\<close>

text \<open>
  The precedence as the specification words it: the whitelist's custom limit if present,
  else the per-user override of the quota row, else the global default.
\<close>

definition spec_effective_daily_limit ::
  "int option \<Rightarrow> int option \<Rightarrow> int option \<Rightarrow> int option" where
  "spec_effective_daily_limit custom override global_default =
     coalesce [custom, override, global_default]"

text \<open>\<^verbatim>\<open>remainingQuotaAfter = effectiveDailyLimit - gasUsedToday - estimatedGasCost\<close>\<close>

definition spec_remaining_quota_after :: "int \<Rightarrow> int \<Rightarrow> int \<Rightarrow> int" where
  "spec_remaining_quota_after effectiveDailyLimit gasUsedToday estimatedGasCost =
     effectiveDailyLimit - gasUsedToday - estimatedGasCost"

subsection \<open>Example databases\<close>

definition midnight :: clock where
  "midnight = \<lparr>now = 0, current_date = 0\<rparr>"

text \<open>Whitelist mode switched on, nobody on the whitelist.\<close>

definition whitelist_only_db :: db where
  "whitelist_only_db =
     initial_db\<lparr>gas_station_config := [default_config\<lparr>whitelist_enabled := Some True\<rparr>]\<rparr>"

text \<open>
  Whitelist mode, \<open>userA\<close> whitelisted with a custom limit of 10000000000, and a row for
  today that carries a per-user override of 2000000000.
\<close>

definition vip_db :: db where
  "vip_db = whitelist_only_db
     \<lparr>user_daily_quotas := [(''userA'', 0) \<mapsto>
        null_quota\<lparr>gas_used_today := Some 5, transactions_today := Some 1,
                   daily_limit := Some 2000000000\<rparr>],
      gas_station_whitelist := [''userA'' \<mapsto>
        \<lparr>custom_daily_limit = Some 10000000000, is_active = Some True, expires_at = None\<rparr>]\<rparr>"

text \<open>The default configuration, \<open>userA\<close> having used 4950000000 today.\<close>

definition busy_db :: db where
  "busy_db = initial_db
     \<lparr>user_daily_quotas := [(''userA'', 0) \<mapsto>
        null_quota\<lparr>gas_used_today := Some 4950000000, transactions_today := Some 3\<rparr>]\<rparr>"

text \<open>A per-user override at the largest BIGINT, one unit used.\<close>

definition unlimited_db :: db where
  "unlimited_db = initial_db
     \<lparr>user_daily_quotas := [(''userA'', 0) \<mapsto>
        null_quota\<lparr>gas_used_today := Some 1, transactions_today := Some 1,
                   daily_limit := Some 9223372036854775807\<rparr>]\<rparr>"

text \<open>The default configuration again, with transaction counts far above every count limit.\<close>

definition crowded_db :: db where
  "crowded_db = busy_db
     \<lparr>user_daily_quotas := [(''userA'', 0) \<mapsto>
        null_quota\<lparr>gas_used_today := Some 4950000000, transactions_today := Some 1000,
                   max_transactions_per_day := Some 2\<rparr>],
      gas_station_config := [default_config\<lparr>max_transactions_per_user_per_day := Some 1\<rparr>]\<rparr>"

text \<open>Two confirmed transactions of \<open>userA\<close> on day 0, with fees 100000 and 200000.\<close>

definition first_call :: usage_call where
  "first_call = \<lparr>call_clock = \<lparr>now = 10, current_date = 0\<rparr>, call_user = ''userA'',
     call_market = None, call_tx_hash = ''0x01'', call_tx_version = 1, call_gas_used = 1000,
     call_gas_unit_price = 100, call_fee_payer = ''0xFEE''\<rparr>"

definition second_call :: usage_call where
  "second_call = \<lparr>call_clock = \<lparr>now = 20, current_date = 0\<rparr>, call_user = ''userA'',
     call_market = None, call_tx_hash = ''0x02'', call_tx_version = 2, call_gas_used = 2000,
     call_gas_unit_price = 100, call_fee_payer = ''0xFEE''\<rparr>"

text \<open>A confirmed transaction of another user on the same day, with fee 700000.\<close>

definition other_call :: usage_call where
  "other_call = \<lparr>call_clock = \<lparr>now = 15, current_date = 0\<rparr>, call_user = ''userB'',
     call_market = None, call_tx_hash = ''0x03'', call_tx_version = 3, call_gas_used = 7000,
     call_gas_unit_price = 100, call_fee_payer = ''0xFEE''\<rparr>"

text \<open>
  A server with one active, gas-sponsored market and the binary contract deployed, and a
  request of \<open>userA\<close> to bet on that market.
\<close>

definition example_market :: market_row where
  "example_market = \<lparr>market_object_address = Some ''0xM1'', market_system = Some ''v3-binary'',
     contract_module_name = None, status = Some ''active'', is_gas_sponsored = Some True\<rparr>"

definition example_contract :: contract_row where
  "example_contract = \<lparr>version = ''v3-binary-safe'', contract_type = ''amm'',
     module_names = [''v3AMMbinary''], account_address = ''0xda1a'', network = ''testnet'',
     is_latest = Some True, deployment_status = Some ''active''\<rparr>"

definition example_environment :: environment where
  "example_environment = \<lparr>db_clock = \<lparr>now = 0, current_date = 0\<rparr>, date_now = 1000,
     NEXT_PUBLIC_APTOS_NETWORK = None, GAS_SPONSOR_PRIVATE_KEY = Some ''0xKEY'',
     NEXT_PUBLIC_GAS_SPONSOR_ADDRESS = Some ''0xFEE'', markets_answer = True,
     rpc_answer = True, contracts_answer = True, key_well_formed = (\<lambda>k. True),
     build_simple = (\<lambda>sender path args. Some (sender @ '' calls '' @ path)),
     sign_as_fee_payer = (\<lambda>key tx. Some (key @ '' signs '' @ tx))\<rparr>"

definition example_server :: server where
  "example_server = \<lparr>store = busy_db\<lparr>markets := [''m1'']\<rparr>,
     market_columns = (\<lambda>k. example_market), blockchain_contracts = [example_contract],
     contractCache = [], cacheTimestamp = 0, feePayerAccount = None\<rparr>"

definition example_request :: bet_request where
  "example_request = \<lparr>userAddress = Some ''userA'', marketId = Some ''m1'',
     marketAddress = None, optionIndex = Some (Whole 0), amount = Some (Whole 50000000)\<rparr>"

subsection \<open>Comparing ledgers\<close>

text \<open>The calls of a run that record for a given user on a given day.\<close>

definition calls_for :: "string \<Rightarrow> int \<Rightarrow> usage_call list \<Rightarrow> usage_call list" where
  "calls_for u day cs =
     filter (\<lambda>c. call_user c = u \<and> current_date (call_clock c) = day) cs"

text \<open>The two counters of a ledger row, if the row exists.\<close>

definition counters :: "db \<Rightarrow> string \<times> int \<Rightarrow> (int option \<times> int option) option" where
  "counters d k =
     map_option (\<lambda>q. (gas_used_today q, transactions_today q)) (user_daily_quotas d k)"

text \<open>
  Two databases differ only in transaction counts when they agree on everything except
  \<^verbatim>\<open>transactions_today\<close> and \<^verbatim>\<open>max_transactions_per_day\<close> of the quota rows and
  \<^verbatim>\<open>max_transactions_per_user_per_day\<close> of the configuration rows.
\<close>

definition forget_tx_count :: "quota_row \<Rightarrow> quota_row" where
  "forget_tx_count q = q\<lparr>transactions_today := None, max_transactions_per_day := None\<rparr>"

definition forget_tx_limit :: "config_row \<Rightarrow> config_row" where
  "forget_tx_limit c = c\<lparr>max_transactions_per_user_per_day := None\<rparr>"

definition differ_only_in_tx_counts :: "db \<Rightarrow> db \<Rightarrow> bool" where
  "differ_only_in_tx_counts d d' \<longleftrightarrow>
     markets d = markets d' \<and>
     gas_sponsorship_usage d = gas_sponsorship_usage d' \<and>
     map_option forget_tx_count \<circ> user_daily_quotas d =
       map_option forget_tx_count \<circ> user_daily_quotas d' \<and>
     map forget_tx_limit (gas_station_config d) = map forget_tx_limit (gas_station_config d') \<and>
     gas_station_whitelist d = gas_station_whitelist d' \<and>
     gas_station_blocked_users d = gas_station_blocked_users d'"

section \<open>Properties\<close>

subsection \<open>Evaluation rules and the stages of \<^verbatim>\<open>check_user_gas_quota\<close>\<close>

lemmas check_eval = check_user_gas_quota_def select_config_def select_is_blocked_def
  select_whitelist_def active_whitelist_row_def select_quota_def check_limits_def
  return_quota_def return_denied_def effective_daily_limit_def is_true_def sql_not_def
  bigint_out_def in_bigint_def Let_def

lemmas example_dbs = initial_db_def default_config_def midnight_def whitelist_only_db_def
  vip_db_def busy_db_def unlimited_db_def crowded_db_def null_quota_def

lemmas example_calls = first_call_def second_call_def other_call_def

lemmas ledger_eval = gas_used_so_far_def resolved_daily_limit_def quota_row_override_def
  whitelist_custom_limit_def

lemmas record_eval = record_call_def record_gas_usage_def insert_usage_def upsert_quota_def
  bigint_mul_def bigint_out_def in_bigint_def in_int4_def Let_def

lemma sql_or_True_right: "sql_or a (Some True) = Some True"
  by (cases "(a, Some True)" rule: sql_or.cases) auto

lemma snd_return_denied: "snd (return_denied r d) = d"
  by (simp add: return_denied_def)

lemma snd_return_quota: "snd (return_quota b x y r d) = d"
  by (simp add: return_quota_def split: sum.split)

lemma snd_check_limits: "snd (check_limits c x y g d) = d"
  by (simp add: check_limits_def snd_return_quota split: sum.split)

text \<open>
  \<^verbatim>\<open>v_is_whitelisted\<close> is either NULL (no active row) or true, so \<^verbatim>\<open>NOT v_is_whitelisted\<close>
  is never true.
\<close>

lemma whitelist_gate_not_true: "\<not> is_true (sql_not (fst (fst (select_whitelist u d))))"
  by (simp add: select_whitelist_def is_true_def sql_not_def split: option.split)

lemma check_disabled:
  "is_true (sql_or (sql_not (enabled (fst (select_config d))))
                   (emergency_stop (fst (select_config d))))
   \<Longrightarrow> check_user_gas_quota clk u g d = return_denied ''Gas station disabled'' d"
  by (simp add: check_user_gas_quota_def select_config_def split: list.split)

lemma check_blocked:
  "\<not> is_true (sql_or (sql_not (enabled (fst (select_config d))))
                     (emergency_stop (fst (select_config d))))
   \<Longrightarrow> fst (select_is_blocked clk u d)
   \<Longrightarrow> check_user_gas_quota clk u g d = return_denied ''User blocked'' d"
  by (simp add: check_user_gas_quota_def select_config_def select_is_blocked_def
        split: list.split)

lemma check_past_gates:
  "\<not> is_true (sql_or (sql_not (enabled (fst (select_config d))))
                     (emergency_stop (fst (select_config d))))
   \<Longrightarrow> \<not> fst (select_is_blocked clk u d)
   \<Longrightarrow> check_user_gas_quota clk u g d =
       check_limits (fst (select_config d)) (gas_used_so_far clk u d)
         (resolved_daily_limit clk u d) g d"
  using whitelist_gate_not_true [of u d]
  apply (simp add: check_user_gas_quota_def gas_used_so_far_def resolved_daily_limit_def
       quota_row_override_def whitelist_custom_limit_def effective_daily_limit_def
       Let_def split_def)
  apply (simp add: select_config_def select_is_blocked_def select_whitelist_def
       select_quota_def split: option.split list.split)
  done

lemma check_limits_Inr:
  "fst (check_limits c x y g d) = Inr r \<Longrightarrow>
     out_gas_used_today r = x \<and> out_daily_limit r = y \<and>
     bigint_sub y x = Inr (out_remaining_quota r)"
  by (auto simp: check_limits_def return_quota_def split: sum.splits if_splits)

lemma bigint_sub_Inr:
  "bigint_sub y x = Inr z \<Longrightarrow>
     z = (case (y, x) of (Some l, Some v) \<Rightarrow> Some (l - v) | _ \<Rightarrow> None)"
  by (cases y; cases x) (auto simp: bigint_out_def split: if_splits)

lemma check_result_cases:
  assumes "fst (check_user_gas_quota clk u g d) = Inr r"
  shows "r = \<lparr>has_quota = False, out_gas_used_today = Some 0, out_remaining_quota = Some 0,
               out_daily_limit = Some 0, reason = ''Gas station disabled''\<rparr>
       \<or> r = \<lparr>has_quota = False, out_gas_used_today = Some 0, out_remaining_quota = Some 0,
               out_daily_limit = Some 0, reason = ''User blocked''\<rparr>
       \<or> fst (check_limits (fst (select_config d)) (gas_used_so_far clk u d)
                (resolved_daily_limit clk u d) g d) = Inr r"
proof (cases "is_true (sql_or (sql_not (enabled (fst (select_config d))))
                              (emergency_stop (fst (select_config d))))")
  case True
  with assms show ?thesis by (auto simp: check_disabled return_denied_def)
next
  case False
  show ?thesis
  proof (cases "fst (select_is_blocked clk u d)")
    case True
    with False assms show ?thesis by (auto simp: check_blocked return_denied_def)
  next
    case nb: False
    with False assms show ?thesis by (simp add: check_past_gates)
  qed
qed

subsection \<open>The whitelist gate\<close>

text \<open>
  C1. With whitelist mode enabled and a user who has no active whitelist entry, the
  evaluation should deny with \<^verbatim>\<open>User not whitelisted\<close>. The function does not: the
  \<^verbatim>\<open>SELECT ... INTO\<close> finds no row, \<^verbatim>\<open>v_is_whitelisted\<close> is NULL, the gate
  \<^verbatim>\<open>IF NOT v_is_whitelisted\<close> is skipped, and the quota arithmetic runs and approves.
\<close>

theorem unlisted_user_is_approved:
  "fst (check_user_gas_quota midnight ''userA'' 100000 whitelist_only_db) =
     Inr \<lparr>has_quota = True, out_gas_used_today = Some 0,
          out_remaining_quota = Some 5000000000, out_daily_limit = Some 5000000000,
          reason = ''OK''\<rparr>"
  by (simp add: check_eval example_dbs)

subsection \<open>The remaining quota of an approval\<close>

text \<open>
  C2, as the specification states it, fails on the scenario it gives: with the default
  configuration and nothing used today, an estimate of 100000000 is approved with a
  remaining quota of 5000000000, not 4900000000.
\<close>

theorem remaining_quota_after_counterexample:
  "fst (check_user_gas_quota midnight ''userA'' 100000000 initial_db) =
     Inr \<lparr>has_quota = True, out_gas_used_today = Some 0,
          out_remaining_quota = Some 5000000000, out_daily_limit = Some 5000000000,
          reason = ''OK''\<rparr>
   \<and> (5000000000::int) \<noteq> spec_remaining_quota_after 5000000000 0 100000000"
  by (simp add: check_eval example_dbs spec_remaining_quota_after_def)

text \<open>
  C2 (amended). For every approved evaluation the returned remaining quota is the daily
  limit in force minus the gas already used today; the estimated cost of the proposed
  transaction is not subtracted. In the scenario the approval carries 5000000000.
\<close>

theorem approved_remaining_quota:
  "(fst (check_user_gas_quota clk u g d) = Inr r \<longrightarrow> has_quota r \<longrightarrow>
      out_gas_used_today r = gas_used_so_far clk u d \<and>
      out_daily_limit r = resolved_daily_limit clk u d \<and>
      out_remaining_quota r =
        (case (resolved_daily_limit clk u d, gas_used_so_far clk u d) of
           (Some l, Some x) \<Rightarrow> Some (l - x)
         | _ \<Rightarrow> None))
   \<and> fst (check_user_gas_quota midnight ''userA'' 100000000 initial_db) =
       Inr \<lparr>has_quota = True, out_gas_used_today = Some 0,
            out_remaining_quota = Some 5000000000, out_daily_limit = Some 5000000000,
            reason = ''OK''\<rparr>"
proof (intro conjI impI)
  assume r: "fst (check_user_gas_quota clk u g d) = Inr r" and ok: "has_quota r"
  from check_result_cases [OF r] ok
  have lim: "fst (check_limits (fst (select_config d)) (gas_used_so_far clk u d)
                (resolved_daily_limit clk u d) g d) = Inr r"
    by auto
  from check_limits_Inr [OF lim]
  show "out_gas_used_today r = gas_used_so_far clk u d"
    and "out_daily_limit r = resolved_daily_limit clk u d"
    and "out_remaining_quota r =
        (case (resolved_daily_limit clk u d, gas_used_so_far clk u d) of
           (Some l, Some x) \<Rightarrow> Some (l - x)
         | _ \<Rightarrow> None)"
    by (auto dest: bigint_sub_Inr)
next
  show "fst (check_user_gas_quota midnight ''userA'' 100000000 initial_db) =
       Inr \<lparr>has_quota = True, out_gas_used_today = Some 0,
            out_remaining_quota = Some 5000000000, out_daily_limit = Some 5000000000,
            reason = ''OK''\<rparr>"
    by (simp add: check_eval example_dbs)
qed

text \<open>The amended C2 at a user who has used 4950000000 of 5000000000 and asks for 100000.\<close>

theorem approved_remaining_quota_witness:
  "fst (check_user_gas_quota midnight ''userA'' 100000 busy_db) =
     Inr \<lparr>has_quota = True, out_gas_used_today = Some 4950000000,
          out_remaining_quota = Some 50000000, out_daily_limit = Some 5000000000,
          reason = ''OK''\<rparr>
   \<and> resolved_daily_limit midnight ''userA'' busy_db = Some 5000000000
   \<and> gas_used_so_far midnight ''userA'' busy_db = Some 4950000000"
proof -
  have h: "fst (check_user_gas_quota midnight ''userA'' 100000 busy_db) =
     Inr \<lparr>has_quota = True, out_gas_used_today = Some 4950000000,
          out_remaining_quota = Some 50000000, out_daily_limit = Some 5000000000,
          reason = ''OK''\<rparr>"
    by (simp add: check_eval example_dbs)
  from approved_remaining_quota [of midnight "''userA''" 100000 busy_db
      "\<lparr>has_quota = True, out_gas_used_today = Some 4950000000,
        out_remaining_quota = Some 50000000, out_daily_limit = Some 5000000000,
        reason = ''OK''\<rparr>"] h
  show ?thesis by simp
qed

subsection \<open>The precedence of daily limits\<close>

text \<open>
  C3, as the specification states it, fails: for a whitelisted user with a custom limit of
  10000000000 whose row for today carries an override of 2000000000, the function works
  with 2000000000, where the stated precedence gives 10000000000.
\<close>

theorem daily_limit_precedence_counterexample:
  "map_sum id out_daily_limit (fst (check_user_gas_quota midnight ''userA'' 100000 vip_db)) =
     Inr (Some 2000000000)
   \<and> spec_effective_daily_limit (whitelist_custom_limit vip_db ''userA'')
        (quota_row_override midnight ''userA'' vip_db)
        (default_daily_limit_per_user (fst (select_config vip_db))) = Some 10000000000"
  by (simp add: check_eval example_dbs spec_effective_daily_limit_def
        whitelist_custom_limit_def quota_row_override_def)

text \<open>
  C3 (amended). For every evaluation that gets past the kill switches, the block list and
  the whitelist gate, the daily limit is resolved with this precedence: the per-user override stored in the
  user's row for today if present, otherwise the custom limit of the user's active
  whitelist entry (consulted only when whitelist mode is enabled), otherwise the global
  default of the configuration.
\<close>

theorem daily_limit_precedence:
  assumes "fst (check_user_gas_quota clk u g d) = Inr r"
    and "reason r \<noteq> ''Gas station disabled''"
    and "reason r \<noteq> ''User blocked''"
    and "reason r \<noteq> ''User not whitelisted''"
  shows "out_daily_limit r =
     coalesce [quota_row_override clk u d,
               if is_true (whitelist_enabled (fst (select_config d)))
               then whitelist_custom_limit d u else None,
               default_daily_limit_per_user (fst (select_config d))]"
proof -
  from check_result_cases [OF assms(1)] assms(2,3)
  have "fst (check_limits (fst (select_config d)) (gas_used_so_far clk u d)
                (resolved_daily_limit clk u d) g d) = Inr r"
    by auto
  from check_limits_Inr [OF this] show ?thesis
    by (simp add: resolved_daily_limit_def)
qed

text \<open>The amended C3 at the whitelisted user whose row carries an override.\<close>

theorem daily_limit_precedence_witness:
  "fst (check_user_gas_quota midnight ''userA'' 100000 vip_db) =
     Inr \<lparr>has_quota = True, out_gas_used_today = Some 5,
          out_remaining_quota = Some 1999999995, out_daily_limit = Some 2000000000,
          reason = ''OK''\<rparr>
   \<and> ''OK'' \<noteq> ''Gas station disabled'' \<and> ''OK'' \<noteq> ''User blocked''
   \<and> ''OK'' \<noteq> ''User not whitelisted''
   \<and> Some 2000000000 =
     coalesce [quota_row_override midnight ''userA'' vip_db,
               if is_true (whitelist_enabled (fst (select_config vip_db)))
               then whitelist_custom_limit vip_db ''userA'' else None,
               default_daily_limit_per_user (fst (select_config vip_db))]"
proof -
  have h: "fst (check_user_gas_quota midnight ''userA'' 100000 vip_db) =
     Inr \<lparr>has_quota = True, out_gas_used_today = Some 5,
          out_remaining_quota = Some 1999999995, out_daily_limit = Some 2000000000,
          reason = ''OK''\<rparr>"
    by (simp add: check_eval example_dbs)
  from daily_limit_precedence [OF h] h show ?thesis by simp
qed

subsection \<open>The kill switches\<close>

text \<open>
  C5, as the specification states it, fails: a disabled station and an emergency stop are
  denied with one and the same reason.
\<close>

theorem kill_switch_reasons_counterexample:
  "map_sum id reason (fst (check_user_gas_quota midnight ''userA'' 100000
      (initial_db\<lparr>gas_station_config := [default_config\<lparr>enabled := Some False\<rparr>]\<rparr>))) =
     Inr ''Gas station disabled''
   \<and> map_sum id reason (fst (check_user_gas_quota midnight ''userA'' 100000
      (initial_db\<lparr>gas_station_config := [default_config\<lparr>emergency_stop := Some True\<rparr>]\<rparr>))) =
     Inr ''Gas station disabled''"
  by (simp add: check_eval example_dbs)

text \<open>
  C5 (amended). When \<^verbatim>\<open>enabled\<close> is false or \<^verbatim>\<open>emergency_stop\<close> is true, the evaluation
  denies with the single reason \<^verbatim>\<open>Gas station disabled\<close> and zero amounts, for every user,
  estimate and quota state.
\<close>

theorem kill_switch_denies:
  assumes "gas_station_config d = c # cs"
    and "enabled c = Some False \<or> emergency_stop c = Some True"
  shows "check_user_gas_quota clk u g d =
     (Inr \<lparr>has_quota = False, out_gas_used_today = Some 0, out_remaining_quota = Some 0,
           out_daily_limit = Some 0, reason = ''Gas station disabled''\<rparr>, d)"
proof -
  have "fst (select_config d) = c"
    using assms(1) by (simp add: select_config_def)
  moreover have "is_true (sql_or (sql_not (enabled c)) (emergency_stop c))"
    using assms(2) by (auto simp: is_true_def sql_not_def sql_or_True_right)
  ultimately show ?thesis
    by (simp add: check_disabled return_denied_def)
qed

text \<open>The amended C5 at an emergency stop, for a user with quota left.\<close>

theorem kill_switch_denies_witness:
  "gas_station_config (busy_db\<lparr>gas_station_config := [default_config\<lparr>emergency_stop := Some True\<rparr>]\<rparr>) =
     default_config\<lparr>emergency_stop := Some True\<rparr> # []
   \<and> emergency_stop (default_config\<lparr>emergency_stop := Some True\<rparr>) = Some True
   \<and> fst (check_user_gas_quota midnight ''userA'' 100000
        (busy_db\<lparr>gas_station_config := [default_config\<lparr>emergency_stop := Some True\<rparr>]\<rparr>)) =
     Inr \<lparr>has_quota = False, out_gas_used_today = Some 0, out_remaining_quota = Some 0,
          out_daily_limit = Some 0, reason = ''Gas station disabled''\<rparr>"
proof -
  have h1: "gas_station_config (busy_db\<lparr>gas_station_config := [default_config\<lparr>emergency_stop := Some True\<rparr>]\<rparr>) =
     default_config\<lparr>emergency_stop := Some True\<rparr> # []"
    by simp
  have h2: "enabled (default_config\<lparr>emergency_stop := Some True\<rparr>) = Some False
      \<or> emergency_stop (default_config\<lparr>emergency_stop := Some True\<rparr>) = Some True"
    by simp
  from kill_switch_denies [OF h1 h2, of midnight "''userA''" 100000] h1
  show ?thesis by simp
qed

subsection \<open>The evaluation writes nothing\<close>

lemma check_user_gas_quota_keeps_db: "snd (check_user_gas_quota clk u g d) = d"
proof (cases "is_true (sql_or (sql_not (enabled (fst (select_config d))))
                              (emergency_stop (fst (select_config d))))")
  case True
  then show ?thesis by (simp add: check_disabled snd_return_denied)
next
  case False
  then show ?thesis
    by (cases "fst (select_is_blocked clk u d)")
       (simp_all add: check_blocked check_past_gates snd_return_denied snd_check_limits)
qed

lemma run_check_user_gas_quota_keeps_db: "snd (run_check_user_gas_quota clk u g d) = d"
  using check_user_gas_quota_keeps_db [of clk u g d]
  by (auto simp: run_check_user_gas_quota_def split: prod.splits sum.splits)

lemma supabase_rpc_keeps_db: "snd (supabase_rpc_check_user_gas_quota env args d) = d"
  by (auto simp: supabase_rpc_check_user_gas_quota_def run_check_user_gas_quota_keeps_db
        split: option.splits rpc_value.splits)

lemma checkUserGasQuota_keeps_db: "snd (checkUserGasQuota env user g d) = d"
  using supabase_rpc_keeps_db
    [of env "[(''p_user_address'', RText user), (''p_required_amount'', RNumber g)]" d]
  by (auto simp: checkUserGasQuota_def split: prod.splits sum.splits)

lemma check_quota_on_server_keeps_store:
  "store (snd (check_quota_on_server env user g s)) = store s"
  using checkUserGasQuota_keeps_db [of env user g "store s"]
  by (auto simp: check_quota_on_server_def split: prod.splits)

lemma select_market_keeps_server: "snd (select_market env k s) = s"
  by (simp add: select_market_def)

lemma loadContractVersions_keeps_store: "store (snd (loadContractVersions env s)) = store s"
  by (simp add: loadContractVersions_def)

lemma getContract_keeps_store: "store (snd (getContract keys needle env s)) = store s"
  using loadContractVersions_keeps_store [of env s]
  by (auto simp: getContract_def split: prod.splits sum.splits option.splits)

lemma getFunctionPath_keeps_store:
  "store (snd (getFunctionPath keys needle f m env s)) = store s"
  using getContract_keeps_store [of keys needle env s]
  by (auto simp: getFunctionPath_def split: prod.splits sum.splits)

lemma getMarketFunctionPath_keeps_store:
  "store (snd (getMarketFunctionPath sys f m env s)) = store s"
  by (simp add: getMarketFunctionPath_def getFunctionPath_keeps_store)

lemma getFeePayerAccount_keeps_store: "store (snd (getFeePayerAccount env s)) = store s"
  by (simp add: getFeePayerAccount_def split: option.splits)

lemma buildSponsoredTransaction_keeps_store:
  "store (snd (buildSponsoredTransaction env sender path args s)) = store s"
  using getFeePayerAccount_keeps_store [of env s]
  by (auto simp: buildSponsoredTransaction_def split: prod.splits sum.splits option.splits)

lemma assemble_sponsored_bet_keeps_store:
  "store (snd (assemble_sponsored_bet env body market user i a s)) = store s"
proof -
  obtain r s3 where path: "getMarketFunctionPath (market_system market) ''buy_with_apt''
      (contract_module_name market) env s = (r, s3)"
    by (cases "getMarketFunctionPath (market_system market) ''buy_with_apt''
      (contract_module_name market) env s")
  with getMarketFunctionPath_keeps_store
    [of "market_system market" "''buy_with_apt''" "contract_module_name market" env s]
  have s3: "store s3 = store s" by simp
  show ?thesis
  proof (cases r)
    case (Inl e)
    with path s3 show ?thesis by (simp add: assemble_sponsored_bet_def)
  next
    case (Inr functionPath)
    show ?thesis
    proof (cases a)
      case Fraction
      with path Inr s3 show ?thesis by (simp add: assemble_sponsored_bet_def)
    next
      case (Whole n)
      let ?args = "[ArgAddress
                      (case marketAddress body of
                         None \<Rightarrow> market_object_address market
                       | Some addr \<Rightarrow>
                           if addr = [] then market_object_address market else Some addr),
                    ArgNumber i, ArgBigInt n]"
      obtain b s4 where built: "buildSponsoredTransaction env user functionPath ?args s3 = (b, s4)"
        by (cases "buildSponsoredTransaction env user functionPath ?args s3")
      with buildSponsoredTransaction_keeps_store [of env user functionPath ?args s3] s3
      have "store s4 = store s" by simp
      with path Inr Whole built show ?thesis
        by (cases b) (simp_all add: assemble_sponsored_bet_def)
    qed
  qed
qed

lemma POST_keeps_store: "store (snd (POST env request s)) = store s"
proof (cases request)
  case None
  then show ?thesis by (simp add: POST_def)
next
  case (Some body)
  show ?thesis
  proof (cases "\<exists>user k i a. userAddress body = Some user \<and> marketId body = Some k \<and>
      optionIndex body = Some i \<and> amount body = Some a \<and>
      \<not> (user = [] \<or> k = [] \<or> a = Whole 0)")
    case False
    with Some show ?thesis
      by (auto simp: POST_def split: option.splits)
  next
    case True
    then obtain user k i a where
      f: "userAddress body = Some user" "marketId body = Some k"
         "optionIndex body = Some i" "amount body = Some a"
      and ok: "\<not> (user = [] \<or> k = [] \<or> a = Whole 0)"
      by blast
    obtain q s2 where q: "check_quota_on_server env user 100000 s = (q, s2)"
      by (cases "check_quota_on_server env user 100000 s")
    with check_quota_on_server_keeps_store [of env user 100000 s]
    have s2: "store s2 = store s" by simp
    have tail: "store (snd (assemble_sponsored_bet env body m user i a s2)) = store s" for m
      using assemble_sponsored_bet_keeps_store [of env body m user i a s2] s2 by simp
    from Some f ok q s2 tail show ?thesis
      by (auto simp: POST_def select_market_def split: option.splits)
  qed
qed

text \<open>
  On the example server the request is denied at the quota check: the rpc is made with an
  argument name the stored function does not have. The assembly on its own answers with
  the transaction to sign, and fills the module variables of the two services on the way.
\<close>

lemmas route_eval = POST_def assemble_sponsored_bet_def select_market_def
  check_quota_on_server_def checkUserGasQuota_def supabase_rpc_check_user_gas_quota_def
  array_property_def getMarketFunctionPath_def getFunctionPath_def getContract_def
  loadContractVersions_def cache_contract_def service_network_def CACHE_TTL_def
  function_path_def buildSponsoredTransaction_def getFeePayerAccount_def optional_field_def
  example_server_def example_request_def example_market_def example_contract_def
  example_environment_def

lemma POST_example_is_denied:
  "fst (POST example_environment (Some example_request) example_server) =
     \<lparr>http_status = 429,
      json_body = [(''error'', JStr ''Gas quota exceeded''),
                   (''message'', JStr ''Failed to check quota''),
                   (''remaining'', JNum (Whole 0))]\<rparr>"
  by (simp add: route_eval)

lemma assemble_example_answers:
  "http_status (fst (assemble_sponsored_bet example_environment example_request example_market
      ''userA'' (Whole 0) (Whole 50000000) example_server)) = 200"
  "feePayerAccount (snd (assemble_sponsored_bet example_environment example_request example_market
      ''userA'' (Whole 0) (Whole 50000000) example_server)) = Some ''0xKEY''"
  "cacheTimestamp (snd (assemble_sponsored_bet example_environment example_request example_market
      ''userA'' (Whole 0) (Whole 50000000) example_server)) = 1000"
  by (simp_all add: route_eval)

text \<open>
  C9. Phase 1 writes nothing to the quota store. The route handler \<^verbatim>\<open>POST\<close> leaves the
  database of the server as it found it for every request, environment and server state,
  on every path (rejected, denied, failed or answered with a transaction to sign); so does
  the part of the handler that runs after an allowed quota check, taken on its own; so do
  \<^verbatim>\<open>checkUserGasQuota\<close>, the rpc it makes whatever arguments are passed, and the stored
  function \<^verbatim>\<open>check_user_gas_quota\<close>. The configuration, quota, whitelist, blocklist and usage
  tables after the call are the tables before it.
\<close>

theorem eligibility_evaluation_writes_nothing:
  "store (snd (POST env request s)) = store s
   \<and> store (snd (assemble_sponsored_bet env body market user option_index amount_sent s)) = store s
   \<and> snd (checkUserGasQuota env user requiredGas d) = d
   \<and> snd (supabase_rpc_check_user_gas_quota env args d) = d
   \<and> snd (check_user_gas_quota clk u g d) = d"
  by (simp add: POST_keeps_store assemble_sponsored_bet_keeps_store checkUserGasQuota_keeps_db
        supabase_rpc_keeps_db check_user_gas_quota_keeps_db)

subsection \<open>The daily-quota boundary\<close>

text \<open>
  C6, as the specification states it, fails in two ways. With the default configuration and
  nothing used today, an estimate equal to the whole daily limit passes the daily-quota
  check and is then denied by the per-transaction limit. With a limit at the largest
  BIGINT and one unit used, the estimate one unit above the headroom makes the sum
  \<^verbatim>\<open>gas_used_today + p_estimated_gas\<close> overflow, and the call raises an error instead of
  returning a denial.
\<close>

theorem daily_quota_boundary_counterexample:
  "gas_used_so_far midnight ''userA'' initial_db = Some 0
   \<and> resolved_daily_limit midnight ''userA'' initial_db = Some 5000000000
   \<and> fst (check_user_gas_quota midnight ''userA'' (5000000000 - 0) initial_db) =
       Inr \<lparr>has_quota = False, out_gas_used_today = Some 0,
            out_remaining_quota = Some 5000000000, out_daily_limit = Some 5000000000,
            reason = ''Gas per transaction limit exceeded''\<rparr>
   \<and> gas_used_so_far midnight ''userA'' unlimited_db = Some 1
   \<and> resolved_daily_limit midnight ''userA'' unlimited_db = Some 9223372036854775807
   \<and> fst (check_user_gas_quota midnight ''userA'' (9223372036854775807 - 1 + 1) unlimited_db) =
       Inl NumericValueOutOfRange"
  by (simp add: check_eval example_dbs ledger_eval)

text \<open>
  C6 (amended). For every user state passing the preceding checks, with the daily limit and
  the estimate within BIGINT: an evaluation with an estimate equal to the daily limit minus
  the gas used today is approved provided the estimate does not exceed
  \<^verbatim>\<open>max_gas_per_transaction\<close>, and an evaluation with an estimate one unit larger is denied
  with \<^verbatim>\<open>Daily quota exceeded\<close> provided the limit is below the largest BIGINT.
\<close>

theorem daily_quota_boundary:
  assumes "gas_station_config d = c # cs"
    and "\<not> is_true (sql_or (sql_not (enabled c)) (emergency_stop c))"
    and "\<not> fst (select_is_blocked clk u d)"
    and "is_true (whitelist_enabled c) \<longrightarrow> active_whitelist_row d u \<noteq> None"
    and "gas_used_so_far clk u d = Some used"
    and "resolved_daily_limit clk u d = Some lim"
    and "in_bigint lim" and "in_bigint (lim - used)"
  shows "((\<forall>m. max_gas_per_transaction c = Some m \<longrightarrow> lim - used \<le> m) \<longrightarrow>
          fst (check_user_gas_quota clk u (lim - used) d) =
            Inr \<lparr>has_quota = True, out_gas_used_today = Some used,
                 out_remaining_quota = Some (lim - used), out_daily_limit = Some lim,
                 reason = ''OK''\<rparr>)
       \<and> (in_bigint (lim + 1) \<longrightarrow>
          fst (check_user_gas_quota clk u (lim - used + 1) d) =
            Inr \<lparr>has_quota = False, out_gas_used_today = Some used,
                 out_remaining_quota = Some (lim - used), out_daily_limit = Some lim,
                 reason = ''Daily quota exceeded''\<rparr>)"
proof -
  have c: "fst (select_config d) = c"
    using assms(1) by (simp add: select_config_def)
  have past: "check_user_gas_quota clk u g d = check_limits c (Some used) (Some lim) g d" for g
    using check_past_gates [of d clk u g] assms c by simp
  show ?thesis
    using assms(7,8)
    by (cases "max_gas_per_transaction c")
       (auto simp: past check_limits_def return_quota_def bigint_out_def is_true_def)
qed

text \<open>
  The amended C6 at a user who has used 4950000000 of 5000000000: an estimate of 50000000
  is approved, 50000001 is denied.
\<close>

theorem daily_quota_boundary_witness:
  "gas_station_config busy_db = default_config # []
   \<and> \<not> is_true (sql_or (sql_not (enabled default_config)) (emergency_stop default_config))
   \<and> \<not> fst (select_is_blocked midnight ''userA'' busy_db)
   \<and> \<not> is_true (whitelist_enabled default_config)
   \<and> gas_used_so_far midnight ''userA'' busy_db = Some 4950000000
   \<and> resolved_daily_limit midnight ''userA'' busy_db = Some 5000000000
   \<and> in_bigint 5000000000 \<and> in_bigint (5000000000 - 4950000000) \<and> in_bigint (5000000000 + 1)
   \<and> max_gas_per_transaction default_config = Some 100000000
   \<and> (5000000000::int) - 4950000000 \<le> 100000000
   \<and> fst (check_user_gas_quota midnight ''userA'' (5000000000 - 4950000000) busy_db) =
       Inr \<lparr>has_quota = True, out_gas_used_today = Some 4950000000,
            out_remaining_quota = Some (5000000000 - 4950000000),
            out_daily_limit = Some 5000000000, reason = ''OK''\<rparr>
   \<and> fst (check_user_gas_quota midnight ''userA'' (5000000000 - 4950000000 + 1) busy_db) =
       Inr \<lparr>has_quota = False, out_gas_used_today = Some 4950000000,
            out_remaining_quota = Some (5000000000 - 4950000000),
            out_daily_limit = Some 5000000000, reason = ''Daily quota exceeded''\<rparr>"
proof -
  have h1: "gas_station_config busy_db = default_config # []"
    by (simp add: example_dbs)
  have h2: "\<not> is_true (sql_or (sql_not (enabled default_config)) (emergency_stop default_config))"
    by (simp add: example_dbs is_true_def sql_not_def)
  have h3: "\<not> fst (select_is_blocked midnight ''userA'' busy_db)"
    by (simp add: example_dbs select_is_blocked_def)
  have w: "\<not> is_true (whitelist_enabled default_config)"
    by (simp add: example_dbs is_true_def)
  then have h4: "is_true (whitelist_enabled default_config) \<longrightarrow>
      active_whitelist_row busy_db ''userA'' \<noteq> None"
    by simp
  have h5: "gas_used_so_far midnight ''userA'' busy_db = Some 4950000000"
    by (simp add: example_dbs ledger_eval)
  have h6: "resolved_daily_limit midnight ''userA'' busy_db = Some 5000000000"
    by (simp add: example_dbs ledger_eval select_config_def is_true_def)
  have h7: "in_bigint 5000000000" "in_bigint (5000000000 - 4950000000)" "in_bigint (5000000000 + 1)"
    by (simp_all add: in_bigint_def)
  have m: "max_gas_per_transaction default_config = Some 100000000"
    "(5000000000::int) - 4950000000 \<le> 100000000"
    by (simp_all add: example_dbs)
  then have h8: "\<forall>m. max_gas_per_transaction default_config = Some m \<longrightarrow>
      5000000000 - 4950000000 \<le> m"
    by simp
  from daily_quota_boundary [OF h1 h2 h3 h4 h5 h6 h7(1) h7(2)] h1 h2 h3 w h5 h6 h7 h8 m
  show ?thesis by blast
qed

subsection \<open>The per-transaction limit\<close>

text \<open>
  C7. For every user state that passes the gates and has ample daily-quota headroom (the
  gas used today is not negative and, with the estimate added, stays within the daily
  limit), an evaluation with an estimate strictly greater than
  \<^verbatim>\<open>max_gas_per_transaction\<close> is denied with \<^verbatim>\<open>Gas per transaction limit exceeded\<close>.
\<close>

theorem per_transaction_limit:
  assumes "gas_station_config d = c # cs"
    and "\<not> is_true (sql_or (sql_not (enabled c)) (emergency_stop c))"
    and "\<not> fst (select_is_blocked clk u d)"
    and "is_true (whitelist_enabled c) \<longrightarrow> active_whitelist_row d u \<noteq> None"
    and "gas_used_so_far clk u d = Some used" and "0 \<le> used"
    and "resolved_daily_limit clk u d = Some lim" and "in_bigint lim"
    and "in_bigint g" and "used + g \<le> lim"
    and "max_gas_per_transaction c = Some m" and "m < g"
  shows "fst (check_user_gas_quota clk u g d) =
     Inr \<lparr>has_quota = False, out_gas_used_today = Some used,
          out_remaining_quota = Some (lim - used), out_daily_limit = Some lim,
          reason = ''Gas per transaction limit exceeded''\<rparr>"
proof -
  have c: "fst (select_config d) = c"
    using assms(1) by (simp add: select_config_def)
  have "check_user_gas_quota clk u g d = check_limits c (Some used) (Some lim) g d"
    using check_past_gates [of d clk u g] assms c by simp
  moreover have "in_bigint (used + g)" "in_bigint (lim - used)"
    using assms by (auto simp: in_bigint_def)
  ultimately show ?thesis
    using assms by (simp add: check_limits_def return_quota_def bigint_out_def is_true_def)
qed

text \<open>
  C7 at a whitelisted user in whitelist mode, 5 used of a limit of 2000000000, an estimate
  of 100000001 against a per-transaction limit of 100000000.
\<close>

theorem per_transaction_limit_witness:
  "gas_station_config vip_db = default_config\<lparr>whitelist_enabled := Some True\<rparr> # []
   \<and> \<not> is_true (sql_or (sql_not (enabled (default_config\<lparr>whitelist_enabled := Some True\<rparr>)))
                        (emergency_stop (default_config\<lparr>whitelist_enabled := Some True\<rparr>)))
   \<and> \<not> fst (select_is_blocked midnight ''userA'' vip_db)
   \<and> is_true (whitelist_enabled (default_config\<lparr>whitelist_enabled := Some True\<rparr>))
   \<and> active_whitelist_row vip_db ''userA'' \<noteq> None
   \<and> gas_used_so_far midnight ''userA'' vip_db = Some 5 \<and> (0::int) \<le> 5
   \<and> resolved_daily_limit midnight ''userA'' vip_db = Some 2000000000
   \<and> in_bigint 2000000000 \<and> in_bigint 100000001 \<and> (5::int) + 100000001 \<le> 2000000000
   \<and> max_gas_per_transaction (default_config\<lparr>whitelist_enabled := Some True\<rparr>) = Some 100000000
   \<and> (100000000::int) < 100000001
   \<and> fst (check_user_gas_quota midnight ''userA'' 100000001 vip_db) =
       Inr \<lparr>has_quota = False, out_gas_used_today = Some 5,
            out_remaining_quota = Some (2000000000 - 5), out_daily_limit = Some 2000000000,
            reason = ''Gas per transaction limit exceeded''\<rparr>"
proof -
  let ?c = "default_config\<lparr>whitelist_enabled := Some True\<rparr>"
  have h1: "gas_station_config vip_db = ?c # []"
    by (simp add: example_dbs)
  have h2: "\<not> is_true (sql_or (sql_not (enabled ?c)) (emergency_stop ?c))"
    by (simp add: example_dbs is_true_def sql_not_def)
  have h3: "\<not> fst (select_is_blocked midnight ''userA'' vip_db)"
    by (simp add: example_dbs select_is_blocked_def)
  have w: "is_true (whitelist_enabled ?c)" "active_whitelist_row vip_db ''userA'' \<noteq> None"
    by (simp_all add: example_dbs is_true_def active_whitelist_row_def)
  then have h4: "is_true (whitelist_enabled ?c) \<longrightarrow> active_whitelist_row vip_db ''userA'' \<noteq> None"
    by simp
  have h5: "gas_used_so_far midnight ''userA'' vip_db = Some 5" "(0::int) \<le> 5"
    by (simp_all add: example_dbs ledger_eval)
  have h6: "resolved_daily_limit midnight ''userA'' vip_db = Some 2000000000"
    by (simp add: example_dbs ledger_eval)
  have h7: "in_bigint 2000000000" "in_bigint 100000001" "(5::int) + 100000001 \<le> 2000000000"
    by (simp_all add: in_bigint_def)
  have h8: "max_gas_per_transaction ?c = Some 100000000" "(100000000::int) < 100000001"
    by (simp_all add: example_dbs)
  from per_transaction_limit [OF h1 h2 h3 h4 h5 h6 h7 h8] h1 h2 h3 w h5 h6 h7 h8
  show ?thesis by blast
qed

subsection \<open>Recording usage\<close>

lemma insert_usage_Inr:
  "insert_usage r d = (Inr x, d1) \<Longrightarrow>
     d1 = d\<lparr>gas_sponsorship_usage := gas_sponsorship_usage d @ [r]\<rparr>"
  by (auto simp: insert_usage_def split: if_splits)

lemma upsert_quota_usage:
  "upsert_quota clk u fee d = (x, d1) \<Longrightarrow> gas_sponsorship_usage d1 = gas_sponsorship_usage d"
  by (auto simp: upsert_quota_def Let_def split: option.splits sum.splits)

text \<open>A successful call appends exactly its own row to \<^verbatim>\<open>gas_sponsorship_usage\<close>.\<close>

lemma record_gas_usage_Inr_usage:
  assumes "record_gas_usage clk u m h v g p f d = (Inr x, d1)"
  shows "map tx_hash (gas_sponsorship_usage d1) = map tx_hash (gas_sponsorship_usage d) @ [h]"
  using assms
  by (auto simp: record_gas_usage_def split: sum.splits prod.splits
        dest!: insert_usage_Inr upsert_quota_usage)

lemma record_gas_usage_Inr_hash:
  assumes "record_gas_usage clk u m h v g p f d = (Inr x, d1)"
  shows "h \<in> set (map tx_hash (gas_sponsorship_usage d1))"
  using record_gas_usage_Inr_usage [OF assms] by simp

text \<open>Successful calls never remove a recorded hash.\<close>

lemma record_all_keeps_hashes:
  assumes "record_all cs d = (Inr x, d1)"
    and "h \<in> set (map tx_hash (gas_sponsorship_usage d))"
  shows "h \<in> set (map tx_hash (gas_sponsorship_usage d1))"
  using assms
proof (induction cs arbitrary: d)
  case Nil
  then show ?case by simp
next
  case (Cons c cs)
  from Cons.prems(1) obtain y d0 where
    step: "record_call c d = (Inr y, d0)" and rest: "record_all cs d0 = (Inr x, d1)"
    by (auto split: prod.splits sum.splits)
  from step have "map tx_hash (gas_sponsorship_usage d0) =
      map tx_hash (gas_sponsorship_usage d) @ [call_tx_hash c]"
    unfolding record_call_def by (rule record_gas_usage_Inr_usage)
  with Cons.prems(2) have "h \<in> set (map tx_hash (gas_sponsorship_usage d0))"
    by simp
  from Cons.IH [OF rest this] show ?case .
qed

lemma record_gas_usage_duplicate:
  assumes "h \<in> set (map tx_hash (gas_sponsorship_usage d1))"
  shows "snd (record_gas_usage clk u m h v g p f d1) = d1"
    and "fst (record_gas_usage clk u m h v g p f d1) =
           (if in_bigint (g * p) then Inl UniqueViolation else Inl NumericValueOutOfRange)"
  using assms by (auto simp: record_gas_usage_def bigint_mul_def insert_usage_def)

lemma record_gas_usage_Inr_mul:
  "record_gas_usage clk u m h v g p f d = (Inr x, d1) \<Longrightarrow> in_bigint (g * p)"
  by (auto simp: record_gas_usage_def bigint_mul_def split: if_splits)

text \<open>
  C4. Once a call of \<^verbatim>\<open>record_gas_usage\<close> has succeeded, and whatever other usage has been
  recorded successfully since, every call with the same transaction hash is rejected and
  leaves the database, and with it \<^verbatim>\<open>gas_used_today\<close> and \<^verbatim>\<open>transactions_today\<close> of every
  row, as it found it; repeated with the same arguments, the call fails with a unique
  violation on \<^verbatim>\<open>tx_hash\<close>. Usage is never counted twice.
\<close>

theorem duplicate_hash_is_rejected:
  assumes "record_gas_usage clk u m h v g p f d = (Inr (), d1)"
    and "record_all cs d1 = (Inr (), d2)"
  shows "record_gas_usage clk u m h v g p f d2 = (Inl UniqueViolation, d2)
       \<and> (\<forall>clk' u' m' v' g' p' f'.
             snd (record_gas_usage clk' u' m' h v' g' p' f' d2) = d2
           \<and> isl (fst (record_gas_usage clk' u' m' h v' g' p' f' d2)))"
proof -
  have "h \<in> set (map tx_hash (gas_sponsorship_usage d1))"
    using assms(1) by (rule record_gas_usage_Inr_hash)
  with assms(2) have dup: "h \<in> set (map tx_hash (gas_sponsorship_usage d2))"
    by (rule record_all_keeps_hashes)
  have "in_bigint (g * p)"
    using assms(1) by (rule record_gas_usage_Inr_mul)
  with record_gas_usage_duplicate [OF dup, of clk u m v g p f]
  have "record_gas_usage clk u m h v g p f d2 = (Inl UniqueViolation, d2)"
    by (simp add: prod_eq_iff)
  moreover have "snd (record_gas_usage clk' u' m' h v' g' p' f' d2) = d2
           \<and> isl (fst (record_gas_usage clk' u' m' h v' g' p' f' d2))" for clk' u' m' v' g' p' f'
    using record_gas_usage_duplicate [OF dup, of clk' u' m' v' g' p' f'] by simp
  ultimately show ?thesis by blast
qed

text \<open>
  C4 at the first example call on the fresh database, repeated after the calls of another
  user and of the same user have been recorded.
\<close>

theorem duplicate_hash_is_rejected_witness:
  "fst (record_call first_call initial_db) = Inr ()
   \<and> fst (record_all [other_call, second_call] (snd (record_call first_call initial_db))) = Inr ()
   \<and> record_gas_usage (call_clock first_call) (call_user first_call) (call_market first_call)
        (call_tx_hash first_call) (call_tx_version first_call) (call_gas_used first_call)
        (call_gas_unit_price first_call) (call_fee_payer first_call)
        (snd (record_all [other_call, second_call] (snd (record_call first_call initial_db)))) =
      (Inl UniqueViolation,
       snd (record_all [other_call, second_call] (snd (record_call first_call initial_db))))"
proof -
  have h: "fst (record_call first_call initial_db) = Inr ()"
    by (simp add: record_eval example_calls example_dbs)
  then have h1: "record_gas_usage (call_clock first_call) (call_user first_call)
        (call_market first_call) (call_tx_hash first_call) (call_tx_version first_call)
        (call_gas_used first_call) (call_gas_unit_price first_call) (call_fee_payer first_call)
        initial_db = (Inr (), snd (record_call first_call initial_db))"
    by (simp add: record_call_def prod_eq_iff)
  have k: "fst (record_all [other_call, second_call] (snd (record_call first_call initial_db))) =
      Inr ()"
    by (simp add: record_eval example_calls example_dbs)
  then have h2: "record_all [other_call, second_call] (snd (record_call first_call initial_db)) =
      (Inr (), snd (record_all [other_call, second_call] (snd (record_call first_call initial_db))))"
    by (simp add: prod_eq_iff)
  from duplicate_hash_is_rejected [OF h1 h2] h k show ?thesis by blast
qed

lemma insert_usage_quotas:
  "insert_usage r d = (x, d1) \<Longrightarrow> user_daily_quotas d1 = user_daily_quotas d"
  by (auto simp: insert_usage_def split: if_splits)

lemma upsert_quota_fresh:
  assumes "upsert_quota clk u fee d = (Inr x, d1)"
    and "user_daily_quotas d (u, current_date clk) = None"
  shows "counters d1 (u, current_date clk) = Some (Some fee, Some 1)"
  using assms by (auto simp: upsert_quota_def counters_def Let_def)

lemma upsert_quota_existing:
  assumes "upsert_quota clk u fee d = (Inr x, d1)"
    and "counters d (u, current_date clk) = Some (Some g0, Some n0)"
  shows "counters d1 (u, current_date clk) = Some (Some (g0 + fee), Some (n0 + 1))"
  using assms
  by (auto simp: upsert_quota_def counters_def Let_def bigint_out_def
        split: option.splits sum.splits if_splits)

text \<open>The upsert touches the row of its own user and day and no other row.\<close>

lemma upsert_quota_other:
  assumes "upsert_quota clk u fee d = (x, d1)"
    and "k \<noteq> (u, current_date clk)"
  shows "user_daily_quotas d1 k = user_daily_quotas d k"
  using assms
  by (auto simp: upsert_quota_def Let_def split: option.splits sum.splits)

lemma record_call_steps:
  assumes "record_call c d = (Inr x, d1)"
  obtains d0 y where
    "insert_usage \<lparr>market_id = call_market c, user_address = call_user c,
       tx_hash = call_tx_hash c, tx_version = call_tx_version c,
       gas_used = call_gas_used c, gas_unit_price = call_gas_unit_price c,
       total_gas_fee = call_fee c, fee_payer_address = call_fee_payer c,
       sponsored_at = Some (now (call_clock c)), block_height = None\<rparr> d = (Inr y, d0)"
    and "upsert_quota (call_clock c) (call_user c) (call_fee c) d0 = (Inr x, d1)"
  using assms
  by (auto simp: record_call_def record_gas_usage_def bigint_mul_def call_fee_def
        split: if_splits prod.splits sum.splits)

lemma record_call_fresh:
  assumes "record_call c d = (Inr x, d1)"
    and "user_daily_quotas d (call_user c, current_date (call_clock c)) = None"
  shows "counters d1 (call_user c, current_date (call_clock c)) = Some (Some (call_fee c), Some 1)"
proof -
  from assms(1) obtain d0 y where
    ins: "insert_usage \<lparr>market_id = call_market c, user_address = call_user c,
       tx_hash = call_tx_hash c, tx_version = call_tx_version c,
       gas_used = call_gas_used c, gas_unit_price = call_gas_unit_price c,
       total_gas_fee = call_fee c, fee_payer_address = call_fee_payer c,
       sponsored_at = Some (now (call_clock c)), block_height = None\<rparr> d = (Inr y, d0)"
    and ups: "upsert_quota (call_clock c) (call_user c) (call_fee c) d0 = (Inr x, d1)"
    by (rule record_call_steps)
  from insert_usage_quotas [OF ins] assms(2)
  have "user_daily_quotas d0 (call_user c, current_date (call_clock c)) = None"
    by simp
  from upsert_quota_fresh [OF ups this] show ?thesis .
qed

lemma record_call_existing:
  assumes "record_call c d = (Inr x, d1)"
    and "counters d (call_user c, current_date (call_clock c)) = Some (Some g0, Some n0)"
  shows "counters d1 (call_user c, current_date (call_clock c)) =
           Some (Some (g0 + call_fee c), Some (n0 + 1))"
proof -
  from assms(1) obtain d0 y where
    ins: "insert_usage \<lparr>market_id = call_market c, user_address = call_user c,
       tx_hash = call_tx_hash c, tx_version = call_tx_version c,
       gas_used = call_gas_used c, gas_unit_price = call_gas_unit_price c,
       total_gas_fee = call_fee c, fee_payer_address = call_fee_payer c,
       sponsored_at = Some (now (call_clock c)), block_height = None\<rparr> d = (Inr y, d0)"
    and ups: "upsert_quota (call_clock c) (call_user c) (call_fee c) d0 = (Inr x, d1)"
    by (rule record_call_steps)
  from insert_usage_quotas [OF ins] assms(2)
  have "counters d0 (call_user c, current_date (call_clock c)) = Some (Some g0, Some n0)"
    by (simp add: counters_def)
  from upsert_quota_existing [OF ups this] show ?thesis .
qed

lemma record_call_other:
  assumes "record_call c d = (Inr x, d1)"
    and "k \<noteq> (call_user c, current_date (call_clock c))"
  shows "user_daily_quotas d1 k = user_daily_quotas d k"
proof -
  from assms(1) obtain d0 y where
    ins: "insert_usage \<lparr>market_id = call_market c, user_address = call_user c,
       tx_hash = call_tx_hash c, tx_version = call_tx_version c,
       gas_used = call_gas_used c, gas_unit_price = call_gas_unit_price c,
       total_gas_fee = call_fee c, fee_payer_address = call_fee_payer c,
       sponsored_at = Some (now (call_clock c)), block_height = None\<rparr> d = (Inr y, d0)"
    and ups: "upsert_quota (call_clock c) (call_user c) (call_fee c) d0 = (Inr x, d1)"
    by (rule record_call_steps)
  from upsert_quota_other [OF ups assms(2)] insert_usage_quotas [OF ins]
  show ?thesis by simp
qed

text \<open>A run over an existing row adds the fees and the number of the row's own calls.\<close>

lemma record_all_existing:
  assumes "record_all cs d = (Inr x, d1)"
    and "counters d (u, day) = Some (Some g0, Some n0)"
  shows "counters d1 (u, day) =
           Some (Some (g0 + sum_list (map call_fee (calls_for u day cs))),
                 Some (n0 + int (length (calls_for u day cs))))"
  using assms
proof (induction cs arbitrary: d g0 n0)
  case Nil
  then show ?case by (simp add: calls_for_def)
next
  case (Cons c cs)
  from Cons.prems(1) obtain y d0 where
    step: "record_call c d = (Inr y, d0)" and rest: "record_all cs d0 = (Inr x, d1)"
    by (auto split: prod.splits sum.splits)
  show ?case
  proof (cases "call_user c = u \<and> current_date (call_clock c) = day")
    case True
    with record_call_existing [OF step] Cons.prems(2)
    have "counters d0 (u, day) = Some (Some (g0 + call_fee c), Some (n0 + 1))"
      by simp
    from Cons.IH [OF rest this] True show ?thesis
      by (simp add: calls_for_def algebra_simps)
  next
    case False
    then have "(u, day) \<noteq> (call_user c, current_date (call_clock c))"
      by auto
    from record_call_other [OF step this] Cons.prems(2)
    have "counters d0 (u, day) = Some (Some g0, Some n0)"
      by (simp add: counters_def)
    from Cons.IH [OF rest this] False show ?thesis
      by (auto simp: calls_for_def)
  qed
qed

text \<open>A run from a ledger without the row creates it at the row's first call.\<close>

lemma record_all_fresh:
  assumes "record_all cs d = (Inr x, d1)"
    and "user_daily_quotas d (u, day) = None"
  shows "counters d1 (u, day) =
           (if calls_for u day cs = [] then None
            else Some (Some (sum_list (map call_fee (calls_for u day cs))),
                       Some (int (length (calls_for u day cs)))))"
  using assms
proof (induction cs arbitrary: d)
  case Nil
  then show ?case by (simp add: calls_for_def counters_def)
next
  case (Cons c cs)
  from Cons.prems(1) obtain y d0 where
    step: "record_call c d = (Inr y, d0)" and rest: "record_all cs d0 = (Inr x, d1)"
    by (auto split: prod.splits sum.splits)
  show ?case
  proof (cases "call_user c = u \<and> current_date (call_clock c) = day")
    case True
    with record_call_fresh [OF step] Cons.prems(2)
    have "counters d0 (u, day) = Some (Some (call_fee c), Some 1)"
      by simp
    from record_all_existing [OF rest this] True show ?thesis
      by (simp add: calls_for_def)
  next
    case False
    then have "(u, day) \<noteq> (call_user c, current_date (call_clock c))"
      by auto
    from record_call_other [OF step this] Cons.prems(2)
    have "user_daily_quotas d0 (u, day) = None"
      by simp
    from Cons.IH [OF rest this] False show ?thesis
      by (auto simp: calls_for_def)
  qed
qed

lemma calls_for_mset:
  assumes "mset cs2 = mset cs"
  shows "sum_list (map call_fee (calls_for u day cs2)) = sum_list (map call_fee (calls_for u day cs))"
    and "length (calls_for u day cs2) = length (calls_for u day cs)"
    and "calls_for u day cs2 = [] \<longleftrightarrow> calls_for u day cs = []"
proof -
  have m: "mset (calls_for u day cs2) = mset (calls_for u day cs)"
    using assms by (simp add: calls_for_def)
  then show "sum_list (map call_fee (calls_for u day cs2)) =
      sum_list (map call_fee (calls_for u day cs))"
    by (metis mset_map sum_mset_sum_list)
  from m show len: "length (calls_for u day cs2) = length (calls_for u day cs)"
    by (rule mset_eq_length)
  then show "calls_for u day cs2 = [] \<longleftrightarrow> calls_for u day cs = []"
    by (metis length_0_conv)
qed

text \<open>
  C8. Take any run of successful calls of \<^verbatim>\<open>record_gas_usage\<close>, for whatever users and
  days, from a ledger without a row for user \<open>u\<close> and day \<open>day\<close>. If \<open>N\<close> of the calls are
  for \<open>u\<close> on \<open>day\<close>, the row's \<^verbatim>\<open>gas_used_today\<close> is the sum of their fees
  (\<^verbatim>\<open>p_gas_used * p_gas_unit_price\<close> of each call) and its \<^verbatim>\<open>transactions_today\<close> is \<open>N\<close>
  (for \<open>N = 0\<close> there is no row yet, which the evaluation reads as 0 used); any other
  order of the same calls that also succeeds ends with the same two counters.
\<close>

theorem recorded_usage_sums_up:
  assumes "user_daily_quotas d (u, day) = None"
    and "record_all cs d = (Inr (), d1)"
  shows "map_option gas_used_today (user_daily_quotas d1 (u, day)) =
           (if calls_for u day cs = [] then None
            else Some (Some (sum_list (map call_fee (calls_for u day cs)))))
       \<and> map_option transactions_today (user_daily_quotas d1 (u, day)) =
           (if calls_for u day cs = [] then None
            else Some (Some (int (length (calls_for u day cs)))))
       \<and> gas_used_so_far \<lparr>now = t, current_date = day\<rparr> u d1 =
           Some (sum_list (map call_fee (calls_for u day cs)))
       \<and> (\<forall>cs2 d2. mset cs2 = mset cs \<longrightarrow> record_all cs2 d = (Inr (), d2) \<longrightarrow>
            map_option gas_used_today (user_daily_quotas d2 (u, day)) =
              map_option gas_used_today (user_daily_quotas d1 (u, day))
          \<and> map_option transactions_today (user_daily_quotas d2 (u, day)) =
              map_option transactions_today (user_daily_quotas d1 (u, day)))"
proof -
  have one: "counters d1 (u, day) =
      (if calls_for u day cs = [] then None
       else Some (Some (sum_list (map call_fee (calls_for u day cs))),
                  Some (int (length (calls_for u day cs)))))"
    using record_all_fresh [OF assms(2,1)] .
  have two: "counters d2 (u, day) = counters d1 (u, day)"
    if perm: "mset cs2 = mset cs" and ok: "record_all cs2 d = (Inr (), d2)" for cs2 d2
    using record_all_fresh [OF ok assms(1)] one calls_for_mset [OF perm, of u day]
    by simp
  have proj: "map_option gas_used_today (user_daily_quotas e k) = map_option fst (counters e k)"
    "map_option transactions_today (user_daily_quotas e k) = map_option snd (counters e k)"
    for e k
    by (simp_all add: counters_def option.map_comp comp_def)
  have seen: "gas_used_so_far \<lparr>now = t, current_date = day\<rparr> u d1 =
      Some (sum_list (map call_fee (calls_for u day cs)))"
    using one by (auto simp: gas_used_so_far_def counters_def split: option.splits if_splits)
  show ?thesis
    using one two seen by (simp add: proj)
qed

text \<open>
  C8 at the two example calls of \<open>userA\<close> on the fresh database, with a call of \<open>userB\<close>
  recorded between them.
\<close>

theorem recorded_usage_sums_up_witness:
  "user_daily_quotas initial_db (''userA'', 0) = None
   \<and> fst (record_all [first_call, other_call, second_call] initial_db) = Inr ()
   \<and> calls_for ''userA'' 0 [first_call, other_call, second_call] = [first_call, second_call]
   \<and> map_option gas_used_today
        (user_daily_quotas (snd (record_all [first_call, other_call, second_call] initial_db))
           (''userA'', 0)) =
      Some (Some 300000)
   \<and> map_option transactions_today
        (user_daily_quotas (snd (record_all [first_call, other_call, second_call] initial_db))
           (''userA'', 0)) =
      Some (Some 2)
   \<and> gas_used_so_far \<lparr>now = 30, current_date = 0\<rparr> ''userA''
        (snd (record_all [first_call, other_call, second_call] initial_db)) = Some 300000"
proof -
  have h1: "user_daily_quotas initial_db (''userA'', 0) = None"
    by (simp add: example_dbs)
  have h2: "fst (record_all [first_call, other_call, second_call] initial_db) = Inr ()"
    by (simp add: record_eval example_calls example_dbs)
  then have h2': "record_all [first_call, other_call, second_call] initial_db =
      (Inr (), snd (record_all [first_call, other_call, second_call] initial_db))"
    by (simp add: prod_eq_iff)
  have mine: "calls_for ''userA'' 0 [first_call, other_call, second_call] =
      [first_call, second_call]"
    by (simp add: calls_for_def example_calls)
  have fees: "sum_list (map call_fee [first_call, second_call]) = 300000"
    by (simp add: call_fee_def example_calls)
  from recorded_usage_sums_up [OF h1 h2', of 30] h1 h2 mine fees
  show ?thesis by simp
qed

subsection \<open>Transaction counts\<close>

lemma forget_tx_limit_fields:
  assumes "forget_tx_limit c = forget_tx_limit c'"
  shows "enabled c = enabled c'" "emergency_stop c = emergency_stop c'"
    "whitelist_enabled c = whitelist_enabled c'"
    "default_daily_limit_per_user c = default_daily_limit_per_user c'"
    "max_gas_per_transaction c = max_gas_per_transaction c'"
proof -
  have f: "sel (forget_tx_limit c) = sel (forget_tx_limit c')" for sel :: "config_row \<Rightarrow> 'a"
    using assms by simp
  show "enabled c = enabled c'" using f [of enabled] by (simp add: forget_tx_limit_def)
  show "emergency_stop c = emergency_stop c'" using f [of emergency_stop] by (simp add: forget_tx_limit_def)
  show "whitelist_enabled c = whitelist_enabled c'" using f [of whitelist_enabled] by (simp add: forget_tx_limit_def)
  show "default_daily_limit_per_user c = default_daily_limit_per_user c'"
    using f [of default_daily_limit_per_user] by (simp add: forget_tx_limit_def)
  show "max_gas_per_transaction c = max_gas_per_transaction c'"
    using f [of max_gas_per_transaction] by (simp add: forget_tx_limit_def)
qed

lemma forget_tx_count_fields:
  assumes "forget_tx_count q = forget_tx_count q'"
  shows "gas_used_today q = gas_used_today q'" "daily_limit q = daily_limit q'"
proof -
  have f: "sel (forget_tx_count q) = sel (forget_tx_count q')" for sel :: "quota_row \<Rightarrow> 'a"
    using assms by simp
  show "gas_used_today q = gas_used_today q'" using f [of gas_used_today] by (simp add: forget_tx_count_def)
  show "daily_limit q = daily_limit q'" using f [of daily_limit] by (simp add: forget_tx_count_def)
qed

lemma differ_select_config:
  assumes "differ_only_in_tx_counts d d'"
  shows "forget_tx_limit (fst (select_config d)) = forget_tx_limit (fst (select_config d'))"
proof -
  from assms have "map forget_tx_limit (gas_station_config d) = map forget_tx_limit (gas_station_config d')"
    by (simp add: differ_only_in_tx_counts_def)
  then show ?thesis
    by (cases "gas_station_config d"; cases "gas_station_config d'") (simp_all add: select_config_def)
qed

lemma differ_quota_row:
  assumes "differ_only_in_tx_counts d d'"
  shows "map_option forget_tx_count (user_daily_quotas d k) =
         map_option forget_tx_count (user_daily_quotas d' k)"
proof -
  from assms have "(map_option forget_tx_count \<circ> user_daily_quotas d) k =
      (map_option forget_tx_count \<circ> user_daily_quotas d') k"
    by (simp add: differ_only_in_tx_counts_def)
  then show ?thesis by simp
qed

lemma differ_ledger:
  assumes "differ_only_in_tx_counts d d'"
  shows "gas_used_so_far clk u d = gas_used_so_far clk u d'"
    and "resolved_daily_limit clk u d = resolved_daily_limit clk u d'"
    and "fst (select_is_blocked clk u d) = fst (select_is_blocked clk u d')"
proof -
  note cfg = forget_tx_limit_fields [OF differ_select_config [OF assms]]
  note row = differ_quota_row [OF assms, of "(u, current_date clk)"]
  have wl: "gas_station_whitelist d = gas_station_whitelist d'"
    and bl: "gas_station_blocked_users d = gas_station_blocked_users d'"
    using assms by (simp_all add: differ_only_in_tx_counts_def)
  show "gas_used_so_far clk u d = gas_used_so_far clk u d'"
    using row by (auto simp: gas_used_so_far_def split: option.splits dest: forget_tx_count_fields)
  have "quota_row_override clk u d = quota_row_override clk u d'"
    using row by (auto simp: quota_row_override_def split: option.splits dest: forget_tx_count_fields)
  moreover have "whitelist_custom_limit d u = whitelist_custom_limit d' u"
    using wl by (simp add: whitelist_custom_limit_def active_whitelist_row_def)
  ultimately show "resolved_daily_limit clk u d = resolved_daily_limit clk u d'"
    using cfg by (simp add: resolved_daily_limit_def)
  show "fst (select_is_blocked clk u d) = fst (select_is_blocked clk u d')"
    using bl by (simp add: select_is_blocked_def)
qed

lemma fst_check_limits:
  "max_gas_per_transaction c = max_gas_per_transaction c' \<Longrightarrow>
     fst (check_limits c x y g d) = fst (check_limits c' x y g d')"
  by (simp add: check_limits_def return_quota_def split: sum.split)

lemma check_reasons:
  assumes "fst (check_user_gas_quota clk u g d) = Inr r"
  shows "reason r \<in> {''Gas station disabled'', ''User blocked'', ''User not whitelisted'',
           ''Daily quota exceeded'', ''Gas per transaction limit exceeded'', ''OK''}"
  using check_result_cases [OF assms]
  by (auto simp: check_limits_def return_quota_def split: sum.splits if_splits)

text \<open>
  C10. The per-day transaction-count limits are not enforced by the evaluation: on two
  databases that differ only in transaction counts and transaction-count limits,
  \<^verbatim>\<open>check_user_gas_quota\<close> returns the same result, and the reason of every result is one
  of the six texts of the function, none of which is about a transaction count.
\<close>

theorem transaction_count_is_not_checked:
  assumes "differ_only_in_tx_counts d d'"
  shows "fst (check_user_gas_quota clk u g d) = fst (check_user_gas_quota clk u g d')
       \<and> (\<forall>r. fst (check_user_gas_quota clk u g d) = Inr r \<longrightarrow>
            reason r \<in> {''Gas station disabled'', ''User blocked'', ''User not whitelisted'',
              ''Daily quota exceeded'', ''Gas per transaction limit exceeded'', ''OK''})"
proof -
  note cfg = forget_tx_limit_fields [OF differ_select_config [OF assms]]
  note led = differ_ledger [OF assms, of clk u]
  let ?off = "\<lambda>e. is_true (sql_or (sql_not (enabled (fst (select_config e))))
                                   (emergency_stop (fst (select_config e))))"
  have off: "?off d = ?off d'" using cfg by simp
  have "fst (check_user_gas_quota clk u g d) = fst (check_user_gas_quota clk u g d')"
  proof (cases "?off d")
    case True
    with off show ?thesis by (simp add: check_disabled return_denied_def)
  next
    case False
    show ?thesis
    proof (cases "fst (select_is_blocked clk u d)")
      case True
      with False off led(3) show ?thesis by (simp add: check_blocked return_denied_def)
    next
      case nb: False
      with False off led show ?thesis
        by (simp add: check_past_gates fst_check_limits [OF cfg(5)])
    qed
  qed
  then show ?thesis using check_reasons by blast
qed

text \<open>
  C10 at a user with 1000 transactions today against count limits of 1 and 2: the
  evaluation approves, as it does with 3 transactions and a limit of 50.
\<close>

theorem transaction_count_is_not_checked_witness:
  "differ_only_in_tx_counts busy_db crowded_db
   \<and> fst (check_user_gas_quota midnight ''userA'' 100000 busy_db) =
       fst (check_user_gas_quota midnight ''userA'' 100000 crowded_db)
   \<and> fst (check_user_gas_quota midnight ''userA'' 100000 crowded_db) =
       Inr \<lparr>has_quota = True, out_gas_used_today = Some 4950000000,
            out_remaining_quota = Some 50000000, out_daily_limit = Some 5000000000,
            reason = ''OK''\<rparr>"
proof -
  have e: "fst (check_user_gas_quota midnight ''userA'' 100000 crowded_db) =
       Inr \<lparr>has_quota = True, out_gas_used_today = Some 4950000000,
            out_remaining_quota = Some 50000000, out_daily_limit = Some 5000000000,
            reason = ''OK''\<rparr>"
    by (simp add: check_eval example_dbs)
  have h: "differ_only_in_tx_counts busy_db crowded_db"
    by (simp add: differ_only_in_tx_counts_def example_dbs forget_tx_count_def
          forget_tx_limit_def fun_eq_iff)
  from transaction_count_is_not_checked [OF h, of midnight "''userA''" 100000] h e
  show ?thesis by simp
qed

end
